theory Spec2Isabelle
  imports Complex_Main
begin

section \<open>The comment-to-DM pipeline of instagram-auto-dm\<close>

text \<open>
  The repository holds two builds of the same server: \<^verbatim>\<open>src/main.go\<close> (routes on
  \<^verbatim>\<open>net/http\<close>) and \<^verbatim>\<open>src/unnamed/part_001\<close> (routes on httprouter, the build the
  README describes). They share \<^verbatim>\<open>processComment\<close>, \<^verbatim>\<open>isDuplicate\<close>, \<^verbatim>\<open>dmWorker\<close>,
  \<^verbatim>\<open>sendDMWithRetry\<close> and \<^verbatim>\<open>logDM\<close>; they differ in the two webhook handlers and in
  \<^verbatim>\<open>sendDM\<close>. A function of \<^verbatim>\<open>src/main.go\<close> that differs from its namesake carries the
  suffix \<open>_main_go\<close>.

  Go's \<^verbatim>\<open>int\<close> and \<^verbatim>\<open>time.Duration\<close> are 64-bit signed integers; they are modelled as
  \<open>int\<close> with the wrap-around written out (\<open>wrap64\<close>). Go strings are byte strings:
  \<open>string\<close>. An \<^verbatim>\<open>error\<close> is modelled by its message (the program only compares errors
  with \<^verbatim>\<open>nil\<close> and calls \<^verbatim>\<open>Error()\<close>), \<^verbatim>\<open>nil\<close> is \<open>None\<close>.
\<close>

subsection \<open>Data\<close>

record Config =
  Port :: string
  DatabaseURL :: string
  VerifyToken :: string
  AccessToken :: string
  IGBusinessID :: string
  Keywords :: "string list"
  DMMessage :: string
  DMDelay :: int
  MaxRetries :: int
  RetryBackoffBase :: int

record User =
  ID :: string
  Username :: string

record CommentData =
  ID :: string
  MediaID :: string
  Text :: string
  From :: User
  ParentID :: string

record Change =
  Field :: string
  Value :: CommentData

record Entry =
  ID :: string
  Time :: int
  Changes :: "Change list"

record WebhookPayload =
  Object :: string
  Entry :: "Entry list"

record DMJob =
  UserID :: string
  PostID :: string
  CommentID :: string
  Text :: string
  Username :: string
  Timestamp :: int

text \<open>
  A row of the table \<^verbatim>\<open>dm_logs\<close> created by \<^verbatim>\<open>createTables\<close>. The surrogate key
  \<^verbatim>\<open>id SERIAL\<close> is read by no statement of the program and is left out.
  \<^verbatim>\<open>error_message\<close> is nullable, but \<^verbatim>\<open>logDM\<close> always stores a string.
\<close>

record dm_logs_row =
  user_id :: string
  post_id :: string
  comment_id :: string
  sent_at :: int
  status :: string
  retry_count :: int
  error_message :: string

text \<open>A value decoded by \<^verbatim>\<open>encoding/json\<close> into \<^verbatim>\<open>interface{}\<close>; a number is a float64.\<close>

datatype json =
    JNull
  | JBool bool
  | JNumber real
  | JString string
  | JArray "json list"
  | JObject "(string \<times> json) list"

text \<open>
  What \<^verbatim>\<open>client.Do\<close> and \<^verbatim>\<open>io.ReadAll\<close> give \<^verbatim>\<open>sendDM\<close>: an error of the transport, or
  a response with its status code, its body, and what \<^verbatim>\<open>json.Unmarshal\<close> makes of the
  body as a \<^verbatim>\<open>map[string]any\<close> (\<open>None\<close> when it returns an error).
\<close>

datatype http_reply =
    TransportError string
  | Response int string "(string \<times> json) list option"

text \<open>
  What the worker does that the outside can observe: \<^verbatim>\<open>time.Sleep\<close> of a duration, a
  POST request handed to \<^verbatim>\<open>client.Do\<close> (the URL given to \<^verbatim>\<open>http.NewRequest\<close> and the
  body), and a statement handed to \<^verbatim>\<open>db.Exec\<close> (its five parameters).
\<close>

datatype event =
    Sleep int
  | Post string string
  | Exec string string string string string

text \<open>
  The functions of Go's library that the program calls and that are not defined here:
  \<^verbatim>\<open>strings.ToLower\<close> and \<^verbatim>\<open>strings.TrimSpace\<close> (both follow the Unicode tables),
  \<^verbatim>\<open>time.ParseDuration\<close> with its error dropped (0 on an error),
  \<^verbatim>\<open>fmt.Sscanf(s, "%d", &n)\<close> (\<open>None\<close> when nothing is stored),
  \<^verbatim>\<open>json.Marshal\<close> of the payload of \<^verbatim>\<open>sendDM\<close> for a recipient id and a message
  (\<open>Inl\<close> its error, \<open>Inr\<close> the bytes), and the error of
  \<^verbatim>\<open>http.NewRequest("POST", url, body)\<close> for a URL (\<open>None\<close> when the request is
  built; it fails when the URL cannot be parsed). Durations are in nanoseconds.
\<close>

record golib =
  strings_ToLower :: "string \<Rightarrow> string"
  strings_TrimSpace :: "string \<Rightarrow> string"
  time_ParseDuration :: "string \<Rightarrow> int"
  fmt_Sscanf_d :: "string \<Rightarrow> int option"
  json_Marshal :: "string \<Rightarrow> string \<Rightarrow> string + string"
  http_NewRequest :: "string \<Rightarrow> string option"

text \<open>
  The globals \<^verbatim>\<open>config\<close>, \<^verbatim>\<open>db\<close> (the table behind it) and \<^verbatim>\<open>dmQueue\<close>, together
  with the library (\<open>lib\<close>) and the environment the program runs in:
  \<^item> \<open>db_err n\<close>: whether the \<open>n\<close>-th statement sent to the database comes back with an
    error (connection lost, a value that does not fit its column, \<^verbatim>\<open>retry_count\<close>
    leaving the range of \<^verbatim>\<open>INTEGER\<close>, ...); \<open>db_calls\<close> counts the statements sent;
  \<^item> \<open>replies n\<close>: the outcome of the \<open>n\<close>-th request to the messaging endpoint;
    \<open>requests\<close> counts the requests made;
  \<^item> \<open>now\<close>: the reading of \<^verbatim>\<open>time.Now()\<close> and \<^verbatim>\<open>CURRENT_TIMESTAMP\<close>;
  \<^item> \<open>trace\<close>: the events so far, oldest first.
  \<open>dmQueue\<close> lists the jobs sent on the channel and not yet received, oldest first: the
  buffer of 100 followed by the senders parked on a full buffer.
\<close>

record world =
  config :: Config
  lib :: golib
  dm_logs :: "dm_logs_row list"
  db_err :: "nat \<Rightarrow> bool"
  db_calls :: nat
  dmQueue :: "DMJob list"
  now :: int
  replies :: "nat \<Rightarrow> http_reply"
  requests :: nat
  trace :: "event list"

subsection \<open>The persistence log\<close>

definition key :: "dm_logs_row \<Rightarrow> string \<times> string" where
  "key r = (user_id r, post_id r)"

text \<open>
  The statement of \<^verbatim>\<open>logDM\<close>:
  \<^verbatim>\<open>INSERT INTO dm_logs (user_id, post_id, comment_id, status, error_message)
  VALUES ($1, $2, $3, $4, $5)
  ON CONFLICT (user_id, post_id) DO UPDATE
  SET retry_count = dm_logs.retry_count + 1, status = $4, error_message = $5,
      sent_at = CURRENT_TIMESTAMP\<close>
  A new row takes the defaults \<^verbatim>\<open>retry_count = 0\<close> and \<^verbatim>\<open>sent_at = CURRENT_TIMESTAMP\<close>.
\<close>

definition merge_row :: "int \<Rightarrow> string \<Rightarrow> string \<Rightarrow> dm_logs_row \<Rightarrow> dm_logs_row" where
  "merge_row ts st em r =
     r\<lparr>retry_count := retry_count r + 1, status := st, error_message := em, sent_at := ts\<rparr>"

definition upsert ::
  "int \<Rightarrow> string \<Rightarrow> string \<Rightarrow> string \<Rightarrow> string \<Rightarrow> string \<Rightarrow> dm_logs_row list \<Rightarrow> dm_logs_row list"
where
  "upsert ts u p c st em t =
     (if (u, p) \<in> set (map key t)
      then map (\<lambda>r. if key r = (u, p) then merge_row ts st em r else r) t
      else t @ [\<lparr>user_id = u, post_id = p, comment_id = c, sent_at = ts, status = st,
                 retry_count = 0, error_message = em\<rparr>])"

text \<open>
  \<^verbatim>\<open>logDM\<close>: one \<^verbatim>\<open>db.Exec\<close>; an error is printed and dropped.
\<close>

definition logDM :: "DMJob \<Rightarrow> string \<Rightarrow> string \<Rightarrow> world \<Rightarrow> world" where
  "logDM job st errMsg w =
     (let w1 = w\<lparr>db_calls := Suc (db_calls w),
                 trace := trace w @ [Exec (UserID job) (PostID job) (CommentID job) st errMsg]\<rparr>
      in if db_err w (db_calls w) then w1
         else w1\<lparr>dm_logs := upsert (now w) (UserID job) (PostID job) (CommentID job) st errMsg
                                (dm_logs w)\<rparr>)"

text \<open>A sequence of calls of \<^verbatim>\<open>logDM\<close>, first call first.\<close>

fun logDM_calls :: "(DMJob \<times> string \<times> string) list \<Rightarrow> world \<Rightarrow> world" where
  "logDM_calls [] w = w"
| "logDM_calls ((job, st, errMsg) # cs) w = logDM_calls cs (logDM job st errMsg w)"

definition rows_of :: "string \<Rightarrow> string \<Rightarrow> world \<Rightarrow> dm_logs_row list" where
  "rows_of u p w = filter (\<lambda>r. key r = (u, p)) (dm_logs w)"

subsection \<open>Strings\<close>

text \<open>
  \<^verbatim>\<open>strings.Contains\<close> and \<^verbatim>\<open>strings.Split\<close> on a one-byte separator work on bytes
  and are defined in full. \<open>ToLower_ascii\<close> and \<open>TrimSpace_ascii\<close> are what
  \<^verbatim>\<open>strings.ToLower\<close> and \<^verbatim>\<open>strings.TrimSpace\<close> do on ASCII text; they stand for the
  library in the sample data.
\<close>

definition ToLower_ascii :: "string \<Rightarrow> string" where
  "ToLower_ascii s =
     map (\<lambda>c. case map_of (zip ''ABCDEFGHIJKLMNOPQRSTUVWXYZ'' ''abcdefghijklmnopqrstuvwxyz'') c of
                 None \<Rightarrow> c | Some l \<Rightarrow> l) s"

definition isSpace :: "char \<Rightarrow> bool" where
  "isSpace c = (c \<in> set [CHR '' '', CHR 0x09, CHR 0x0A, CHR 0x0B, CHR 0x0C, CHR 0x0D])"

definition TrimSpace_ascii :: "string \<Rightarrow> string" where
  "TrimSpace_ascii s = rev (dropWhile isSpace (rev (dropWhile isSpace s)))"

fun HasPrefix :: "string \<Rightarrow> string \<Rightarrow> bool" where
  "HasPrefix s [] = True"
| "HasPrefix [] (p # ps) = False"
| "HasPrefix (c # cs) (p # ps) = (c = p \<and> HasPrefix cs ps)"

fun Contains :: "string \<Rightarrow> string \<Rightarrow> bool" where
  "Contains [] substr = HasPrefix [] substr"
| "Contains (c # cs) substr = (HasPrefix (c # cs) substr \<or> Contains cs substr)"

fun Split :: "string \<Rightarrow> char \<Rightarrow> string list" where
  "Split [] sep = [[]]"
| "Split (c # cs) sep =
     (if c = sep then [] # Split cs sep
      else case Split cs sep of [] \<Rightarrow> [[c]] | x # xs \<Rightarrow> (c # x) # xs)"

text \<open>The verb \<^verbatim>\<open>%d\<close> of \<^verbatim>\<open>fmt\<close>.\<close>

fun digits :: "nat \<Rightarrow> string" where
  "digits n =
     (if n < 10 then [''0123456789'' ! n]
      else digits (n div 10) @ [''0123456789'' ! (n mod 10)])"

declare digits.simps [simp del]

definition fmt_d :: "int \<Rightarrow> string" where
  "fmt_d i = (if i < 0 then CHR ''-'' # digits (nat (- i)) else digits (nat i))"

text \<open>
  What \<^verbatim>\<open>json.Marshal\<close> gives for the payload of \<^verbatim>\<open>sendDM\<close> when the recipient id and
  the message are plain ASCII with nothing to escape (the keys of a map are written in
  sorted order); it stands for the library in the sample data.
\<close>

definition Marshal_ascii :: "string \<Rightarrow> string \<Rightarrow> string" where
  "Marshal_ascii recipientID message =
     (let q = [CHR 0x22]
      in ''{'' @ q @ ''message'' @ q @ '':{'' @ q @ ''text'' @ q @ '':'' @ q @ message @ q @ ''},'' @
         q @ ''recipient'' @ q @ '':{'' @ q @ ''id'' @ q @ '':'' @ q @ recipientID @ q @ ''}}'')"

subsection \<open>64-bit arithmetic\<close>

definition wrap64 :: "int \<Rightarrow> int" where
  "wrap64 x = (x + 2 ^ 63) mod 2 ^ 64 - 2 ^ 63"

text \<open>\<^verbatim>\<open>uint(x)\<close> of an \<^verbatim>\<open>int\<close>, and \<^verbatim>\<open>x << n\<close> at type int64 with an unsigned count.\<close>

definition uint64 :: "int \<Rightarrow> int" where
  "uint64 x = x mod 2 ^ 64"

definition shl64 :: "int \<Rightarrow> int \<Rightarrow> int" where
  "shl64 x n = (if 64 \<le> n then 0 else wrap64 (x * 2 ^ nat n))"

subsection \<open>Configuration\<close>

datatype build = Main_go | Part_001

definition getEnv :: "(string \<Rightarrow> string) \<Rightarrow> string \<Rightarrow> string \<Rightarrow> string" where
  "getEnv env k fallback = (if env k \<noteq> [] then env k else fallback)"

text \<open>
  \<^verbatim>\<open>loadConfig\<close>. \<open>env\<close> is \<^verbatim>\<open>os.Getenv\<close> (the empty string for a variable that is not
  set).
\<close>

definition loadConfig :: "build \<Rightarrow> golib \<Rightarrow> (string \<Rightarrow> string) \<Rightarrow> Config" where
  "loadConfig b L env =
     (let keywords = map (\<lambda>k. strings_TrimSpace L (strings_ToLower L k))
                       (Split (env ''KEYWORDS'') CHR '','');
          delay = time_ParseDuration L (env ''DM_DELAY'');
          delay = (if delay = 0
                   then (case b of Main_go \<Rightarrow> 60 * 1000000000 | Part_001 \<Rightarrow> 30 * 1000000000)
                   else delay);
          maxRetries = (if env ''MAX_RETRIES'' \<noteq> []
                        then (case fmt_Sscanf_d L (env ''MAX_RETRIES'') of None \<Rightarrow> 3 | Some n \<Rightarrow> n)
                        else 3)
      in \<lparr>Port = getEnv env ''PORT'' ''8080'',
          DatabaseURL = env ''DATABASE_URL'',
          VerifyToken = env ''VERIFY_TOKEN'',
          AccessToken = env ''ACCESS_TOKEN'',
          IGBusinessID = env ''IG_BUSINESS_ID'',
          Keywords = keywords,
          DMMessage = (case b of Main_go \<Rightarrow> env ''DM_MESSAGE''
                       | Part_001 \<Rightarrow> getEnv env ''DM_MESSAGE''
                           [CHR ''T'', CHR ''h'', CHR ''a'', CHR ''n'', CHR ''k'', CHR '' '',
                            CHR ''y'', CHR ''o'', CHR ''u'', CHR ''!'', CHR '' '',
                            CHR 0xF0, CHR 0x9F, CHR 0x99, CHR 0x8F]),
          DMDelay = delay,
          MaxRetries = maxRetries,
          RetryBackoffBase = 2 * 1000000000\<rparr>)"

subsection \<open>Keyword matcher and deduplication gate\<close>

text \<open>
  \<^verbatim>\<open>isDuplicate\<close>: \<^verbatim>\<open>SELECT COUNT(*) FROM dm_logs WHERE user_id = $1 AND post_id = $2\<close>;
  when the query fails, \<^verbatim>\<open>src/main.go\<close> prints the error and returns false and
  \<^verbatim>\<open>part_001\<close> returns \<^verbatim>\<open>err == nil && count > 0\<close>, which is the same value.
\<close>

definition isDuplicate :: "string \<Rightarrow> string \<Rightarrow> world \<Rightarrow> bool \<times> world" where
  "isDuplicate userID postID w =
     (let count = length (filter (\<lambda>r. user_id r = userID \<and> post_id r = postID) (dm_logs w));
          w1 = w\<lparr>db_calls := Suc (db_calls w)\<rparr>
      in if db_err w (db_calls w) then (False, w1) else (count > 0, w1))"

text \<open>The loop over \<^verbatim>\<open>config.Keywords\<close> with its \<^verbatim>\<open>break\<close>.\<close>

fun hasKeyword :: "string \<Rightarrow> string list \<Rightarrow> bool" where
  "hasKeyword commentLower [] = False"
| "hasKeyword commentLower (keyword # rest) =
     (if Contains commentLower keyword then True else hasKeyword commentLower rest)"

definition processComment :: "CommentData \<Rightarrow> world \<Rightarrow> world" where
  "processComment comment w =
     (let commentLower = strings_ToLower (lib w) (CommentData.Text comment)
      in if \<not> hasKeyword commentLower (Keywords (config w)) then w
         else case isDuplicate (User.ID (From comment)) (MediaID comment) w of
           (dup, w1) \<Rightarrow>
             if dup then w1
             else w1\<lparr>dmQueue := dmQueue w1 @
                      [\<lparr>UserID = User.ID (From comment),
                        PostID = MediaID comment,
                        CommentID = CommentData.ID comment,
                        Text = CommentData.Text comment,
                        Username = User.Username (From comment),
                        Timestamp = now w1\<rparr>]\<rparr>)"

text \<open>The job that \<^verbatim>\<open>processComment\<close> builds for a comment.\<close>

definition admitted :: "CommentData \<Rightarrow> world \<Rightarrow> DMJob" where
  "admitted comment w =
     \<lparr>UserID = User.ID (From comment), PostID = MediaID comment,
      CommentID = CommentData.ID comment, Text = CommentData.Text comment,
      Username = User.Username (From comment), Timestamp = now w\<rparr>"

subsection \<open>Webhook ingress\<close>

record response =
  StatusCode :: int
  Body :: string

text \<open>\<^verbatim>\<open>http.Error\<close> writes the message and a newline.\<close>

definition http_Error :: "string \<Rightarrow> int \<Rightarrow> response" where
  "http_Error msg code = \<lparr>StatusCode = code, Body = msg @ [CHR 0x0A]\<rparr>"

text \<open>\<^verbatim>\<open>r.URL.Query().Get\<close>: the first value of the parameter, or the empty string.\<close>

definition Query_Get :: "(string \<times> string) list \<Rightarrow> string \<Rightarrow> string" where
  "Query_Get q k = (case map_of q k of None \<Rightarrow> [] | Some v \<Rightarrow> v)"

text \<open>
  The body of a POST as the handler gets it from Go's library: reading it failed, or
  decoding it as JSON into the handler's target type failed (a body that is not JSON, or
  JSON of another shape), or the decoded value.
\<close>

datatype 'a body = ReadError string | DecodeError string | Decoded 'a

text \<open>\<^verbatim>\<open>src/main.go\<close>: \<^verbatim>\<open>handleWebhookVerification\<close>, \<^verbatim>\<open>handleWebhookEvent\<close>, \<^verbatim>\<open>webhookHandler\<close>.\<close>

definition handleWebhookVerification :: "(string \<times> string) list \<Rightarrow> world \<Rightarrow> response" where
  "handleWebhookVerification q w =
     (let mode = Query_Get q ''hub.mode'';
          token = Query_Get q ''hub.verify_token'';
          challenge = Query_Get q ''hub.challenge''
      in if mode = ''subscribe'' \<and> token = VerifyToken (config w)
         then \<lparr>StatusCode = 200, Body = challenge\<rparr>
         else http_Error ''Verification failed'' 403)"

fun handleWebhookEvent_changes :: "Change list \<Rightarrow> world \<Rightarrow> world" where
  "handleWebhookEvent_changes [] w = w"
| "handleWebhookEvent_changes (change # rest) w =
     handleWebhookEvent_changes rest
       (if Field change = ''comments'' then processComment (Value change) w else w)"

fun handleWebhookEvent_entries :: "Entry list \<Rightarrow> world \<Rightarrow> world" where
  "handleWebhookEvent_entries [] w = w"
| "handleWebhookEvent_entries (entry # rest) w =
     handleWebhookEvent_entries rest (handleWebhookEvent_changes (Changes entry) w)"

definition handleWebhookEvent :: "WebhookPayload body \<Rightarrow> world \<Rightarrow> response \<times> world" where
  "handleWebhookEvent body w =
     (case body of
        ReadError e \<Rightarrow> (http_Error ''Bad request'' 400, w)
      | DecodeError e \<Rightarrow> (http_Error ''Bad request'' 400, w)
      | Decoded payload \<Rightarrow>
          (\<lparr>StatusCode = 200, Body = ''EVENT_RECEIVED''\<rparr>,
           handleWebhookEvent_entries (WebhookPayload.Entry payload) w))"

definition webhookHandler ::
  "string \<Rightarrow> (string \<times> string) list \<Rightarrow> WebhookPayload body \<Rightarrow> world \<Rightarrow> response \<times> world"
where
  "webhookHandler method q body w =
     (if method = ''GET'' then (handleWebhookVerification q w, w)
      else if method = ''POST'' then handleWebhookEvent body w
      else (http_Error ''Method not allowed'' 405, w))"

text \<open>
  \<^verbatim>\<open>src/unnamed/part_001\<close>: \<^verbatim>\<open>webhookGETHandler\<close>, \<^verbatim>\<open>webhookPOSTHandler\<close>,
  \<^verbatim>\<open>processCommentFromMap\<close>. A type assertion \<^verbatim>\<open>v, _ := x.(T)\<close> that fails leaves the
  zero value: the empty string, or the nil map, which reads like the empty one.
\<close>

definition webhookGETHandler :: "(string \<times> string) list \<Rightarrow> world \<Rightarrow> response" where
  "webhookGETHandler q w =
     (let mode = Query_Get q ''hub.mode'';
          challenge = Query_Get q ''hub.challenge'';
          token = Query_Get q ''hub.verify_token''
      in if mode = ''subscribe'' \<and> token \<noteq> [] \<and> token = VerifyToken (config w)
         then \<lparr>StatusCode = 200, Body = challenge\<rparr>
         else \<lparr>StatusCode = 403, Body = []\<rparr>)"

definition asString :: "json option \<Rightarrow> string" where
  "asString x = (case x of Some (JString s) \<Rightarrow> s | _ \<Rightarrow> [])"

definition asMap :: "json option \<Rightarrow> (string \<times> json) list" where
  "asMap x = (case x of Some (JObject m) \<Rightarrow> m | _ \<Rightarrow> [])"

definition processCommentFromMap :: "(string \<times> json) list \<Rightarrow> world \<Rightarrow> world" where
  "processCommentFromMap commentMap w =
     (let id = asString (map_of commentMap ''id'');
          mediaID = asString (map_of commentMap ''media_id'');
          text = asString (map_of commentMap ''text'');
          fromMap = asMap (map_of commentMap ''from'');
          userID = asString (map_of fromMap ''id'');
          username = asString (map_of fromMap ''username'')
      in processComment
           \<lparr>CommentData.ID = id, MediaID = mediaID, Text = text,
            From = \<lparr>User.ID = userID, Username = username\<rparr>, ParentID = []\<rparr> w)"

fun webhookPOSTHandler_changes :: "json list \<Rightarrow> world \<Rightarrow> world" where
  "webhookPOSTHandler_changes [] w = w"
| "webhookPOSTHandler_changes (c # rest) w =
     webhookPOSTHandler_changes rest
       (let change = asMap (Some c)
        in case map_of change ''field'' of
             Some (JString field) \<Rightarrow>
               if field = ''comments''
               then (case map_of change ''value'' of
                       Some (JObject v) \<Rightarrow> processCommentFromMap v w
                     | _ \<Rightarrow> w)
               else w
           | _ \<Rightarrow> w)"

fun webhookPOSTHandler_entries :: "json list \<Rightarrow> world \<Rightarrow> world" where
  "webhookPOSTHandler_entries [] w = w"
| "webhookPOSTHandler_entries (e # rest) w =
     webhookPOSTHandler_entries rest
       (let entry = asMap (Some e)
        in case map_of entry ''changes'' of
             Some (JArray changes) \<Rightarrow> webhookPOSTHandler_changes changes w
           | _ \<Rightarrow> w)"

definition webhookPOSTHandler :: "(string \<times> json) list body \<Rightarrow> world \<Rightarrow> response \<times> world" where
  "webhookPOSTHandler body w =
     (case body of
        ReadError e \<Rightarrow> (\<lparr>StatusCode = 200, Body = []\<rparr>, w)
      | DecodeError e \<Rightarrow> (\<lparr>StatusCode = 200, Body = []\<rparr>, w)
      | Decoded payload \<Rightarrow>
          (\<lparr>StatusCode = 200, Body = []\<rparr>,
           case map_of payload ''entry'' of
             Some (JArray entries) \<Rightarrow> webhookPOSTHandler_entries entries w
           | _ \<Rightarrow> w))"

subsection \<open>Dispatcher\<close>

text \<open>
  The test of \<^verbatim>\<open>part_001\<close> on the body of a response that is not a success:
  \<^verbatim>\<open>errResp["error"]\<close> is an object whose \<^verbatim>\<open>code\<close> is the number 10 and whose
  \<^verbatim>\<open>error_subcode\<close> is the number 2534022.
\<close>

definition window_expired :: "(string \<times> json) list option \<Rightarrow> bool" where
  "window_expired errResp =
     (case errResp of
        None \<Rightarrow> False
      | Some m \<Rightarrow>
          (case map_of m ''error'' of
             Some (JObject errData) \<Rightarrow>
               (case map_of errData ''code'' of
                  Some (JNumber code) \<Rightarrow>
                    code = 10 \<and>
                    (case map_of errData ''error_subcode'' of
                       Some (JNumber subcode) \<Rightarrow> subcode = 2534022
                     | _ \<Rightarrow> False)
                | _ \<Rightarrow> False)
           | _ \<Rightarrow> False))"

text \<open>
  What \<^verbatim>\<open>sendDM\<close> returns for the outcome of \<^verbatim>\<open>client.Do\<close> and \<^verbatim>\<open>io.ReadAll\<close>.
\<close>

fun sendDM_result :: "build \<Rightarrow> http_reply \<Rightarrow> string option" where
  "sendDM_result Main_go (TransportError e) = Some (''failed to send request: '' @ e)"
| "sendDM_result Main_go (Response code b errResp) =
     (if code \<noteq> 200 then Some (''API error (status '' @ fmt_d code @ ''): '' @ b) else None)"
| "sendDM_result Part_001 (TransportError e) = Some e"
| "sendDM_result Part_001 (Response code b errResp) =
     (if code \<noteq> 200 \<and> code \<noteq> 201
      then (if window_expired errResp
            then Some (''24_hour_messaging_window_expired: '' @
                       ''User must message you first or within 24 hours'')
            else Some (''api_error_'' @ fmt_d code @ '': '' @ b))
      else None)"

text \<open>The URL that \<^verbatim>\<open>sendDM\<close> formats from \<^verbatim>\<open>config.IGBusinessID\<close>.\<close>

definition sendDM_url :: "build \<Rightarrow> Config \<Rightarrow> string" where
  "sendDM_url b c =
     (case b of
        Main_go \<Rightarrow> ''https://graph.facebook.com/v21.0/'' @ IGBusinessID c @ ''/messages''
      | Part_001 \<Rightarrow> ''https://graph.instagram.com/v15.0/'' @ IGBusinessID c @ ''/messages'')"

text \<open>
  \<^verbatim>\<open>sendDM\<close>. The result is \<open>Inr\<close> of the returned error and the world, or \<open>Inl\<close> of
  the message of a run-time panic.
  \<^item> \<^verbatim>\<open>src/main.go\<close> returns the error of \<^verbatim>\<open>json.Marshal\<close> and the error of
    \<^verbatim>\<open>http.NewRequest\<close>, wrapped, without a request being sent.
  \<^item> \<^verbatim>\<open>part_001\<close> drops both errors: after a failed \<^verbatim>\<open>json.Marshal\<close> the body is empty,
    and after a failed \<^verbatim>\<open>http.NewRequest\<close> the request is nil, so that
    \<^verbatim>\<open>req.Header.Set\<close> panics.
\<close>

definition sendDM ::
  "build \<Rightarrow> string \<Rightarrow> string \<Rightarrow> world \<Rightarrow> string + (string option \<times> world)"
where
  "sendDM b recipientID message w =
     (let url = sendDM_url b (config w);
          marshalled = json_Marshal (lib w) recipientID message
      in case b of
           Main_go \<Rightarrow>
             (case marshalled of
                Inl err \<Rightarrow> Inr (Some (''failed to marshal payload: '' @ err), w)
              | Inr jsonData \<Rightarrow>
                  (case http_NewRequest (lib w) url of
                     Some err \<Rightarrow> Inr (Some (''failed to create request: '' @ err), w)
                   | None \<Rightarrow>
                       Inr (sendDM_result Main_go (replies w (requests w)),
                            w\<lparr>requests := Suc (requests w),
                              trace := trace w @ [Post url jsonData]\<rparr>)))
         | Part_001 \<Rightarrow>
             (let jsonBody = (case marshalled of Inl err \<Rightarrow> [] | Inr jsonData \<Rightarrow> jsonData)
              in case http_NewRequest (lib w) url of
                   Some err \<Rightarrow>
                     Inl ''runtime error: invalid memory address or nil pointer dereference''
                 | None \<Rightarrow>
                     Inr (sendDM_result Part_001 (replies w (requests w)),
                          w\<lparr>requests := Suc (requests w),
                            trace := trace w @ [Post url jsonBody]\<rparr>)))"

subsection \<open>Retry controller\<close>

definition time_Sleep :: "int \<Rightarrow> world \<Rightarrow> world" where
  "time_Sleep d w = w\<lparr>trace := trace w @ [Sleep d]\<rparr>"

text \<open>
  \<^verbatim>\<open>config.RetryBackoffBase * time.Duration(1<<uint(attempt-1))\<close>: the constant 1 takes
  the type \<^verbatim>\<open>time.Duration\<close>, so the shift and the product are taken in int64.
\<close>

definition backoff :: "Config \<Rightarrow> int \<Rightarrow> int" where
  "backoff c attempt =
     wrap64 (RetryBackoffBase c * shl64 1 (uint64 (wrap64 (attempt - 1))))"

text \<open>
  The loop of \<^verbatim>\<open>sendDMWithRetry\<close> from the value \<open>attempt\<close> of its counter on. It need not
  return: \<open>None\<close> is a loop that runs forever. A panic of \<^verbatim>\<open>sendDM\<close> ends it.
\<close>

partial_function (option) sendDMWithRetry_loop ::
  "build \<Rightarrow> DMJob \<Rightarrow> int \<Rightarrow> string option \<Rightarrow> world \<Rightarrow>
   (string + (string option \<times> world)) option"
where
  "sendDMWithRetry_loop b job attempt lastErr w =
     (if attempt \<le> MaxRetries (config w) then
        (let w1 = (if attempt > 0 then time_Sleep (backoff (config w) attempt) w else w)
         in case sendDM b (UserID job) (DMMessage (config w1)) w1 of
              Inl p \<Rightarrow> Some (Inl p)
            | Inr r \<Rightarrow>
                (case fst r of
                   None \<Rightarrow> Some (Inr (None, snd r))
                 | Some err \<Rightarrow>
                     sendDMWithRetry_loop b job (wrap64 (attempt + 1)) (Some err) (snd r)))
      else Some (Inr (lastErr, w)))"

definition sendDMWithRetry ::
  "build \<Rightarrow> DMJob \<Rightarrow> world \<Rightarrow> (string + (string option \<times> world)) option"
where
  "sendDMWithRetry b job w = sendDMWithRetry_loop b job 0 None w"

subsection \<open>Delayed worker\<close>

text \<open>
  The body of the loop of \<^verbatim>\<open>dmWorker\<close> for one job received from the channel. A panic
  is not recovered: it ends the process before \<^verbatim>\<open>logDM\<close> is called.
\<close>

definition dmWorker_body :: "build \<Rightarrow> DMJob \<Rightarrow> world \<Rightarrow> (string + world) option" where
  "dmWorker_body b job w =
     (case sendDMWithRetry b job (time_Sleep (DMDelay (config w)) w) of
        None \<Rightarrow> None
      | Some (Inl p) \<Rightarrow> Some (Inl p)
      | Some (Inr (err, w2)) \<Rightarrow>
          (case err of
             Some e \<Rightarrow> Some (Inr (logDM job ''failed'' e w2))
           | None \<Rightarrow> Some (Inr (logDM job ''sent'' [] w2))))"



subsection \<open>Expected traces\<close>

text \<open>
  \<open>builds_request\<close>: \<^verbatim>\<open>sendDM\<close> can build its request for the job, with body \<open>data\<close>.
  Then: the events of one pass through the loop of \<^verbatim>\<open>sendDMWithRetry\<close> with the counter
  at \<open>attempt\<close>, the events of its first \<open>n\<close> passes, the world after one pass, and the
  event of the statement that \<^verbatim>\<open>logDM\<close> sends for a job and an outcome.
\<close>

definition builds_request :: "build \<Rightarrow> DMJob \<Rightarrow> world \<Rightarrow> string \<Rightarrow> bool" where
  "builds_request b job w data =
     (json_Marshal (lib w) (UserID job) (DMMessage (config w)) = Inr data \<and>
      http_NewRequest (lib w) (sendDM_url b (config w)) = None)"

definition attempt_events :: "Config \<Rightarrow> string \<Rightarrow> string \<Rightarrow> int \<Rightarrow> event list" where
  "attempt_events c url data attempt =
     (if attempt > 0 then [Sleep (backoff c attempt)] else []) @ [Post url data]"

definition retry_events :: "Config \<Rightarrow> string \<Rightarrow> string \<Rightarrow> nat \<Rightarrow> event list" where
  "retry_events c url data n = concat (map (\<lambda>k. attempt_events c url data (int k)) [0..<n])"

fun is_Post :: "event \<Rightarrow> bool" where
  "is_Post (Post u m) = True"
| "is_Post e = False"


definition attempt_world :: "string \<Rightarrow> string \<Rightarrow> int \<Rightarrow> world \<Rightarrow> world" where
  "attempt_world url data a w =
     w\<lparr>requests := Suc (requests w), trace := trace w @ attempt_events (config w) url data a\<rparr>"


subsection \<open>Sample data\<close>

text \<open>
  A configuration with the defaults of \<^verbatim>\<open>loadConfig\<close> for the retries, a library whose
  \<^verbatim>\<open>http.NewRequest\<close> refuses a URL that holds the escape \<^verbatim>\<open>%zz\<close>, an endpoint that
  answers every request with status 403, the URL and the body of the requests for it, a
  comment that holds the keyword, the job it becomes, and a table with no row and with
  one row for the comment's author and post.
\<close>

definition cfg0 :: Config where
  "cfg0 = \<lparr>Port = ''8080'', DatabaseURL = [], VerifyToken = ''tok'', AccessToken = [],
            IGBusinessID = ''17841400000000000'', Keywords = [''dm''], DMMessage = ''hi'',
            DMDelay = 1000000000,
            MaxRetries = 3, RetryBackoffBase = 2000000000\<rparr>"

definition lib0 :: golib where
  "lib0 = \<lparr>strings_ToLower = ToLower_ascii, strings_TrimSpace = TrimSpace_ascii,
            time_ParseDuration = (\<lambda>s. 0), fmt_Sscanf_d = (\<lambda>s. None),
            json_Marshal = (\<lambda>r m. Inr (Marshal_ascii r m)),
            http_NewRequest =
              (\<lambda>url. if Contains url ''%zz'' then Some ''invalid URL escape'' else None)\<rparr>"

definition url0 :: string where
  "url0 = ''https://graph.instagram.com/v15.0/17841400000000000/messages''"

definition data0 :: string where
  "data0 = Marshal_ascii ''123'' ''hi''"

definition w_fresh :: world where
  "w_fresh = \<lparr>config = cfg0, lib = lib0, dm_logs = [], db_err = (\<lambda>n. False), db_calls = 0, dmQueue = [],
               now = 7, replies = (\<lambda>n. Response 403 ''no'' None), requests = 0, trace = []\<rparr>"

definition row0 :: dm_logs_row where
  "row0 = \<lparr>user_id = ''123'', post_id = ''p1'', comment_id = ''c0'', sent_at = 5,
            status = ''failed'', retry_count = 0, error_message = ''api_error_403: no''\<rparr>"

definition w_logged :: world where
  "w_logged = w_fresh\<lparr>dm_logs := [row0]\<rparr>"

definition job0 :: DMJob where
  "job0 = \<lparr>UserID = ''123'', PostID = ''p1'', CommentID = ''c1'', Text = ''please DM'',
            Username = ''bob'', Timestamp = 7\<rparr>"

definition comment0 :: CommentData where
  "comment0 = \<lparr>CommentData.ID = ''c1'', MediaID = ''p1'', Text = ''please DM'',
                From = \<lparr>User.ID = ''123'', Username = ''bob''\<rparr>, ParentID = []\<rparr>"

lemmas fixtures = cfg0_def lib0_def url0_def w_fresh_def row0_def w_logged_def job0_def comment0_def

section \<open>Properties\<close>

subsection \<open>The upsert\<close>

lemma key_merge_row: "key (merge_row ts st em r) = key r"
  by (simp add: key_def merge_row_def)

lemma map_key_upsert_hit:
  "map key (map (\<lambda>r. if key r = k then merge_row ts st em r else r) t) = map key t"
  by (induction t) (simp_all add: key_merge_row)

lemma distinct_upsert:
  "distinct (map key t) \<Longrightarrow> distinct (map key (upsert ts u p c st em t))"
proof (cases "(u, p) \<in> set (map key t)")
  case True
  assume "distinct (map key t)"
  with True show ?thesis
    unfolding upsert_def by (simp only: if_True map_key_upsert_hit)
next
  case False
  assume "distinct (map key t)"
  with False show ?thesis
    by (simp add: upsert_def) (simp add: key_def)
qed

lemma distinct_logDM:
  "distinct (map key (dm_logs w)) \<Longrightarrow> distinct (map key (dm_logs (logDM job st em w)))"
  by (simp add: logDM_def Let_def distinct_upsert)

lemma distinct_logDM_calls:
  "distinct (map key (dm_logs w)) \<Longrightarrow> distinct (map key (dm_logs (logDM_calls cs w)))"
  by (induction cs arbitrary: w) (auto simp: distinct_logDM)

lemma upsert_mono:
  assumes "r \<in> set t"
  shows "\<exists>r'\<in>set (upsert ts u p c st em t). key r' = key r \<and> retry_count r \<le> retry_count r'"
proof (cases "(u, p) \<in> set (map key t)")
  case False
  with assms show ?thesis by (auto simp: upsert_def)
next
  case True
  let ?f = "\<lambda>x. if key x = (u, p) then merge_row ts st em x else x"
  have "?f r \<in> set (upsert ts u p c st em t)"
    using True assms by (simp add: upsert_def)
  moreover have "key (?f r) = key r \<and> retry_count r \<le> retry_count (?f r)"
    by (simp add: key_merge_row) (simp add: merge_row_def)
  ultimately show ?thesis by blast
qed

lemma logDM_mono:
  assumes "r \<in> set (dm_logs w)"
  shows "\<exists>r'\<in>set (dm_logs (logDM job st em w)). key r' = key r \<and> retry_count r \<le> retry_count r'"
proof (cases "db_err w (db_calls w)")
  case True
  with assms show ?thesis by (auto simp: logDM_def Let_def)
next
  case False
  with upsert_mono [OF assms] show ?thesis by (simp add: logDM_def Let_def)
qed

lemma logDM_calls_mono:
  "r \<in> set (dm_logs w) \<Longrightarrow>
   \<exists>r'\<in>set (dm_logs (logDM_calls cs w)). key r' = key r \<and> retry_count r \<le> retry_count r'"
proof (induction cs arbitrary: w r)
  case Nil
  then show ?case by auto
next
  case (Cons c cs)
  obtain job st em where c: "c = (job, st, em)" by (cases c) auto
  from logDM_mono [OF Cons.prems, of job st em]
  obtain r1 where r1: "r1 \<in> set (dm_logs (logDM job st em w))" "key r1 = key r"
    "retry_count r \<le> retry_count r1" by blast
  from Cons.IH [OF r1(1)]
  obtain r2 where "r2 \<in> set (dm_logs (logDM_calls cs (logDM job st em w)))" "key r2 = key r1"
    "retry_count r1 \<le> retry_count r2" by blast
  with r1 c show ?case by (auto intro!: bexI [of _ r2])
qed

lemma filter_key_distinct:
  "distinct (map key t) \<Longrightarrow> r \<in> set t \<Longrightarrow> filter (\<lambda>x. key x = key r) t = [r]"
proof (induction t)
  case Nil
  then show ?case by simp
next
  case (Cons a t)
  show ?case
  proof (cases "a = r")
    case True
    have "key r \<notin> key ` set t"
      using Cons.prems(1) True by simp
    then have "filter (\<lambda>x. key x = key r) t = []"
      by (simp add: filter_empty_conv) (metis imageI)
    with True show ?thesis by simp
  next
    case False
    with Cons.prems have "r \<in> set t" "key a \<noteq> key r" by force+
    with Cons show ?thesis by simp
  qed
qed

lemma filter_key_absent:
  "k \<notin> set (map key t) \<Longrightarrow> filter (\<lambda>x. key x = k) t = []"
  by (auto simp: filter_empty_conv)

lemma upsert_hit_rows:
  assumes "distinct (map key t)" "r \<in> set t" "key r = (u, p)"
  shows "filter (\<lambda>x. key x = (u, p)) (upsert ts u p c st em t) = [merge_row ts st em r]"
proof -
  let ?f = "\<lambda>x. if key x = (u, p) then merge_row ts st em x else x"
  have hit: "(u, p) \<in> set (map key t)" using assms(2,3) by force
  have "filter (\<lambda>x. key x = (u, p)) (map ?f t) = map ?f (filter (\<lambda>x. key x = (u, p)) t)"
    by (induction t) (simp_all add: key_merge_row)
  also have "filter (\<lambda>x. key x = (u, p)) t = [r]"
    using filter_key_distinct [OF assms(1,2)] assms(3) by simp
  finally show ?thesis using hit assms(3) by (simp add: upsert_def)
qed

lemma upsert_miss_rows:
  assumes "(u, p) \<notin> set (map key t)"
  shows "filter (\<lambda>x. key x = (u, p)) (upsert ts u p c st em t) =
           [\<lparr>user_id = u, post_id = p, comment_id = c, sent_at = ts, status = st,
             retry_count = 0, error_message = em\<rparr>]"
  using assms filter_key_absent [OF assms] by (simp add: upsert_def key_def)

text \<open>
  C1. Under the uniqueness constraint of the table, no sequence of calls of \<^verbatim>\<open>logDM\<close>
  leaves two rows with one (user_id, post_id), and the retry_count stored for a key never
  decreases along the sequence. A write (a statement the database accepts) for a key that
  has no row inserts one row with retry_count 0; a write for a key that has a row leaves
  that one row, with status, error_message and sent_at overwritten, retry_count
  incremented and comment_id kept.
\<close>

theorem logDM_upsert_idempotent:
  assumes "distinct (map key (dm_logs w))"
  shows "distinct (map key (dm_logs (logDM_calls cs w))) \<and>
         length (rows_of u p (logDM_calls cs w)) \<le> 1 \<and>
         (\<forall>r\<in>set (dm_logs w). \<exists>r'\<in>set (dm_logs (logDM_calls cs w)).
              key r' = key r \<and> retry_count r \<le> retry_count r') \<and>
         (\<not> db_err w (db_calls w) \<longrightarrow>
            (\<forall>r\<in>set (dm_logs w). key r = (UserID job, PostID job) \<longrightarrow>
               rows_of (UserID job) (PostID job) (logDM job st em w) =
                 [r\<lparr>retry_count := retry_count r + 1, status := st, error_message := em,
                    sent_at := now w\<rparr>]) \<and>
            ((UserID job, PostID job) \<notin> set (map key (dm_logs w)) \<longrightarrow>
               rows_of (UserID job) (PostID job) (logDM job st em w) =
                 [\<lparr>user_id = UserID job, post_id = PostID job, comment_id = CommentID job,
                   sent_at = now w, status = st, retry_count = 0, error_message = em\<rparr>]))"
proof -
  have d: "distinct (map key (dm_logs (logDM_calls cs w)))"
    by (rule distinct_logDM_calls [OF assms])
  have "distinct (map key (rows_of u p (logDM_calls cs w)))"
    unfolding rows_of_def using d by (rule distinct_map_filter)
  moreover have "set (map key (rows_of u p (logDM_calls cs w))) \<subseteq> {(u, p)}"
    by (auto simp: rows_of_def)
  ultimately have "length (map key (rows_of u p (logDM_calls cs w))) \<le> card {(u, p)}"
    by (metis distinct_card card_mono finite.emptyI finite.insertI)
  then have l: "length (rows_of u p (logDM_calls cs w)) \<le> 1" by simp
  have m: "\<forall>r\<in>set (dm_logs w). \<exists>r'\<in>set (dm_logs (logDM_calls cs w)).
              key r' = key r \<and> retry_count r \<le> retry_count r'"
    using logDM_calls_mono by blast
  have h: "rows_of (UserID job) (PostID job) (logDM job st em w) =
             [r\<lparr>retry_count := retry_count r + 1, status := st, error_message := em,
                sent_at := now w\<rparr>]"
    if "\<not> db_err w (db_calls w)" "r \<in> set (dm_logs w)" "key r = (UserID job, PostID job)" for r
    using that upsert_hit_rows [OF assms that(2,3), of "now w" "CommentID job" st em]
    by (simp add: rows_of_def logDM_def Let_def merge_row_def)
  have i: "rows_of (UserID job) (PostID job) (logDM job st em w) =
             [\<lparr>user_id = UserID job, post_id = PostID job, comment_id = CommentID job,
               sent_at = now w, status = st, retry_count = 0, error_message = em\<rparr>]"
    if "\<not> db_err w (db_calls w)" "(UserID job, PostID job) \<notin> set (map key (dm_logs w))"
    using that upsert_miss_rows [OF that(2), of "now w" "CommentID job" st em]
    by (simp add: rows_of_def logDM_def Let_def)
  from d l m h i show ?thesis by blast
qed

theorem logDM_upsert_idempotent_witness:
  "distinct (map key (dm_logs w_logged)) \<and>
   \<not> db_err w_logged (db_calls w_logged) \<and>
   row0 \<in> set (dm_logs w_logged) \<and> key row0 = (UserID job0, PostID job0) \<and>
   rows_of ''123'' ''p1'' (logDM job0 ''sent'' [] w_logged) =
     [\<lparr>user_id = ''123'', post_id = ''p1'', comment_id = ''c0'', sent_at = 7,
       status = ''sent'', retry_count = 1, error_message = []\<rparr>] \<and>
   length (rows_of ''123'' ''p1'' (logDM_calls [(job0, ''failed'', ''x''), (job0, ''sent'', [])] w_fresh)) \<le> 1"
proof -
  have h: "distinct (map key (dm_logs w_logged))" by (simp add: fixtures)
  have g: "distinct (map key (dm_logs w_fresh))" by (simp add: fixtures)
  show ?thesis
    using logDM_upsert_idempotent [OF h, of "[]" "''123''" "''p1''" job0 "''sent''" "[]"]
      logDM_upsert_idempotent [OF g, of "[(job0, ''failed'', ''x''), (job0, ''sent'', [])]" "''123''" "''p1''" job0 "''sent''" "[]"]
    by (simp add: fixtures key_def)
qed

subsection \<open>Strings and the keyword matcher\<close>

text \<open>\<open>Contains\<close> is containment as a substring, and \<open>hasKeyword\<close> asks it of every keyword.\<close>

lemma HasPrefix_iff: "HasPrefix s p \<longleftrightarrow> (\<exists>suf. s = p @ suf)"
  by (induction s p rule: HasPrefix.induct) auto

lemma Contains_iff: "Contains s sub \<longleftrightarrow> (\<exists>pre suf. s = pre @ sub @ suf)"
proof (induction s)
  case Nil
  then show ?case by (cases sub) auto
next
  case (Cons c cs)
  show ?case
  proof
    assume "Contains (c # cs) sub"
    then consider "HasPrefix (c # cs) sub" | "Contains cs sub" by auto
    then show "\<exists>pre suf. c # cs = pre @ sub @ suf"
    proof cases
      case 1
      then obtain suf where "c # cs = sub @ suf" by (auto simp: HasPrefix_iff)
      then have "c # cs = [] @ sub @ suf" by simp
      then show ?thesis by blast
    next
      case 2
      then obtain pre suf where "cs = pre @ sub @ suf" using Cons.IH by blast
      then have "c # cs = (c # pre) @ sub @ suf" by simp
      then show ?thesis by blast
    qed
  next
    assume "\<exists>pre suf. c # cs = pre @ sub @ suf"
    then obtain pre suf where e: "c # cs = pre @ sub @ suf" by blast
    show "Contains (c # cs) sub"
    proof (cases pre)
      case Nil
      with e have "HasPrefix (c # cs) sub" by (auto simp: HasPrefix_iff)
      then show ?thesis by simp
    next
      case (Cons a pre')
      with e have "cs = pre' @ sub @ suf" by simp
      then have "Contains cs sub" using Cons.IH by blast
      then show ?thesis by simp
    qed
  qed
qed

lemma hasKeyword_iff: "hasKeyword s ks \<longleftrightarrow> (\<exists>k\<in>set ks. Contains s k)"
  by (induction ks) auto

lemma Contains_empty: "Contains s []"
  by (cases s) auto

lemma ToLower_ascii_empty: "ToLower_ascii [] = []"
  by (simp add: ToLower_ascii_def)

lemma TrimSpace_ascii_empty: "TrimSpace_ascii [] = []"
  by (simp add: TrimSpace_ascii_def)

lemma loadConfig_Keywords:
  "Keywords (loadConfig b L env) =
     map (\<lambda>k. strings_TrimSpace L (strings_ToLower L k)) (Split (env ''KEYWORDS'') CHR '','')"
  by (simp add: loadConfig_def Let_def)

text \<open>
  C7. A comment whose lower-cased text contains none of the configured keywords is dropped
  by \<^verbatim>\<open>processComment\<close> with no effect at all: the queue, the table, the statements
  sent to the database and the trace are what they were.
\<close>

theorem processComment_no_keyword_no_effect:
  assumes "\<forall>keyword\<in>set (Keywords (config w)). \<not> Contains (strings_ToLower (lib w) (CommentData.Text comment)) keyword"
  shows "processComment comment w = w"
  using assms by (simp add: processComment_def hasKeyword_iff)

theorem processComment_no_keyword_no_effect_witness:
  "Keywords (config w_fresh) = [''dm''] \<and>
   \<not> Contains (strings_ToLower (lib w_fresh) (CommentData.Text (comment0\<lparr>CommentData.Text := ''Nice post''\<rparr>))) ''dm'' \<and>
   processComment (comment0\<lparr>CommentData.Text := ''Nice post''\<rparr>) w_fresh = w_fresh"
proof -
  have h: "\<forall>keyword\<in>set (Keywords (config w_fresh)).
      \<not> Contains (strings_ToLower (lib w_fresh) (CommentData.Text (comment0\<lparr>CommentData.Text := ''Nice post''\<rparr>))) keyword"
    by (simp add: fixtures ToLower_ascii_def)
  from h processComment_no_keyword_no_effect [OF h] show ?thesis
    by (simp add: fixtures)
qed

subsection \<open>The deduplication gate\<close>

text \<open>
  C5, as amended. For a comment that matches a keyword, \<^verbatim>\<open>processComment\<close> sends the one
  query of \<^verbatim>\<open>isDuplicate\<close>. When the query succeeds and the table has a row for
  (author, post), whatever its status, nothing is enqueued and nothing else changes. When
  the table has no such row, or when the query fails, exactly one job built from the
  comment is appended to the queue.
\<close>

theorem processComment_dedup_gate:
  assumes "\<exists>keyword\<in>set (Keywords (config w)). Contains (strings_ToLower (lib w) (CommentData.Text comment)) keyword"
  shows "(\<not> db_err w (db_calls w) \<and> rows_of (User.ID (From comment)) (MediaID comment) w \<noteq> [] \<longrightarrow>
            processComment comment w = w\<lparr>db_calls := Suc (db_calls w)\<rparr>) \<and>
         (db_err w (db_calls w) \<or> rows_of (User.ID (From comment)) (MediaID comment) w = [] \<longrightarrow>
            processComment comment w =
              w\<lparr>db_calls := Suc (db_calls w), dmQueue := dmQueue w @ [admitted comment w]\<rparr>)"
proof -
  have k: "hasKeyword (strings_ToLower (lib w) (CommentData.Text comment)) (Keywords (config w))"
    using assms by (simp add: hasKeyword_iff)
  have r: "rows_of u p w = filter (\<lambda>r. user_id r = u \<and> post_id r = p) (dm_logs w)" for u p
    by (simp add: rows_of_def key_def)
  show ?thesis
    using k by (auto simp: processComment_def isDuplicate_def Let_def r admitted_def)
qed

theorem processComment_dedup_gate_witness:
  "(\<exists>keyword\<in>set (Keywords (config w_logged)). Contains (strings_ToLower (lib w_logged) (CommentData.Text comment0)) keyword) \<and>
   \<not> db_err w_logged (db_calls w_logged) \<and>
   rows_of (User.ID (From comment0)) (MediaID comment0) w_logged \<noteq> [] \<and>
   processComment comment0 w_logged = w_logged\<lparr>db_calls := Suc 0\<rparr> \<and>
   rows_of (User.ID (From comment0)) (MediaID comment0) w_fresh = [] \<and>
   dmQueue (processComment comment0 w_fresh) = [job0]"
proof -
  have h: "\<exists>keyword\<in>set (Keywords (config w_logged)). Contains (strings_ToLower (lib w_logged) (CommentData.Text comment0)) keyword"
    by (simp add: fixtures ToLower_ascii_def)
  have g: "\<exists>keyword\<in>set (Keywords (config w_fresh)). Contains (strings_ToLower (lib w_fresh) (CommentData.Text comment0)) keyword"
    by (simp add: fixtures ToLower_ascii_def)
  show ?thesis
    using h processComment_dedup_gate [OF h] processComment_dedup_gate [OF g]
    by (simp add: fixtures rows_of_def key_def admitted_def)
qed

text \<open>
  The claim as stated fails where the query of \<^verbatim>\<open>isDuplicate\<close> returns an error: the row
  exists, and the job is enqueued all the same.
\<close>

theorem processComment_dedup_gate_counterexample:
  "hasKeyword (strings_ToLower (lib (w_logged\<lparr>db_err := \<lambda>n. True\<rparr>)) (CommentData.Text comment0))
     (Keywords (config (w_logged\<lparr>db_err := \<lambda>n. True\<rparr>))) \<and>
   rows_of (User.ID (From comment0)) (MediaID comment0) (w_logged\<lparr>db_err := \<lambda>n. True\<rparr>) = [row0] \<and>
   dmQueue (w_logged\<lparr>db_err := \<lambda>n. True\<rparr>) = [] \<and>
   dmQueue (processComment comment0 (w_logged\<lparr>db_err := \<lambda>n. True\<rparr>)) = [job0]"
  by (simp add: fixtures ToLower_ascii_def rows_of_def key_def processComment_def isDuplicate_def Let_def)

subsection \<open>An empty keyword list\<close>

text \<open>
  C10. When \<^verbatim>\<open>KEYWORDS\<close> is not set or is empty, \<^verbatim>\<open>loadConfig\<close> gives the keyword list
  that holds the empty string and nothing else (\<^verbatim>\<open>strings.ToLower\<close> and
  \<^verbatim>\<open>strings.TrimSpace\<close> leave the empty string as it is); every comment then matches,
  whatever its text, and goes on to the deduplication gate, which admits it unless it
  finds a row.
\<close>

theorem empty_KEYWORDS_matches_everything:
  assumes "env ''KEYWORDS'' = []"
    and "strings_ToLower (lib w) [] = []" and "strings_TrimSpace (lib w) [] = []"
    and "config w = loadConfig b (lib w) env"
  shows "Keywords (config w) = [[]] \<and>
         hasKeyword (strings_ToLower (lib w) (CommentData.Text comment)) (Keywords (config w)) \<and>
         processComment comment w =
           (if fst (isDuplicate (User.ID (From comment)) (MediaID comment) w)
            then w\<lparr>db_calls := Suc (db_calls w)\<rparr>
            else w\<lparr>db_calls := Suc (db_calls w), dmQueue := dmQueue w @ [admitted comment w]\<rparr>)"
proof -
  have k: "Keywords (config w) = [[]]"
    using assms by (simp add: loadConfig_Keywords)
  have m: "hasKeyword (strings_ToLower (lib w) (CommentData.Text comment)) (Keywords (config w))"
    by (simp add: k Contains_empty)
  from k m show ?thesis
    by (auto simp: processComment_def isDuplicate_def Let_def admitted_def Contains_empty)
qed

theorem empty_KEYWORDS_matches_everything_witness:
  "(\<lambda>v. []) ''KEYWORDS'' = [] \<and>
   strings_ToLower lib0 [] = [] \<and> strings_TrimSpace lib0 [] = [] \<and>
   Keywords (loadConfig Part_001 lib0 (\<lambda>v. [])) = [[]] \<and>
   hasKeyword (strings_ToLower lib0 ''Nice post'') (Keywords (loadConfig Part_001 lib0 (\<lambda>v. []))) \<and>
   dmQueue (processComment (comment0\<lparr>CommentData.Text := ''Nice post''\<rparr>)
             (w_fresh\<lparr>config := loadConfig Part_001 lib0 (\<lambda>v. [])\<rparr>)) =
     [job0\<lparr>DMJob.Text := ''Nice post''\<rparr>]"
proof -
  let ?w = "w_fresh\<lparr>config := loadConfig Part_001 lib0 (\<lambda>v. [])\<rparr>"
  have l: "lib ?w = lib0" by (simp add: w_fresh_def)
  have h: "(\<lambda>v. []) ''KEYWORDS'' = []" "strings_ToLower (lib ?w) [] = []"
    "strings_TrimSpace (lib ?w) [] = []" "config ?w = loadConfig Part_001 (lib ?w) (\<lambda>v. [])"
    by (simp_all add: l) (simp_all add: lib0_def ToLower_ascii_empty TrimSpace_ascii_empty)
  show ?thesis
    using empty_KEYWORDS_matches_everything
      [OF h, of "comment0\<lparr>CommentData.Text := ''Nice post''\<rparr>"] h(2,3)
    unfolding l
    by (simp add: w_fresh_def job0_def comment0_def isDuplicate_def admitted_def Contains_empty)
qed

subsection \<open>Webhook ingress\<close>

text \<open>
  The handler of \<^verbatim>\<open>part_001\<close> answers 200 to every POST, also to a body that cannot be
  read or decoded, and then touches neither the queue nor the table.
\<close>

lemma webhookPOSTHandler_malformed:
  "webhookPOSTHandler (DecodeError e) w = (\<lparr>StatusCode = 200, Body = []\<rparr>, w)"
  "webhookPOSTHandler (ReadError e) w = (\<lparr>StatusCode = 200, Body = []\<rparr>, w)"
  by (simp_all add: webhookPOSTHandler_def)

lemma webhookPOSTHandler_status: "StatusCode (fst (webhookPOSTHandler body w)) = 200"
  by (cases body) (simp_all add: webhookPOSTHandler_def)

text \<open>
  C4. The handler of \<^verbatim>\<open>src/main.go\<close> does not: a POST whose body cannot be read, or
  cannot be decoded as JSON, is answered with status 400 and the body "Bad request"
  (nothing is enqueued or written).
\<close>

theorem webhookHandler_malformed_400:
  "webhookHandler ''POST'' q (DecodeError e) w = (\<lparr>StatusCode = 400, Body = ''Bad request'' @ [CHR 0x0A]\<rparr>, w) \<and>
   webhookHandler ''POST'' q (ReadError e) w = (\<lparr>StatusCode = 400, Body = ''Bad request'' @ [CHR 0x0A]\<rparr>, w)"
  by (simp add: webhookHandler_def handleWebhookEvent_def http_Error_def)

text \<open>
  C9, as amended. \<^verbatim>\<open>webhookGETHandler\<close> answers 200 with exactly the challenge if the mode
  is "subscribe" and the token is not empty and equals the configured token, and 403 with
  an empty body in every other case. \<^verbatim>\<open>handleWebhookVerification\<close> of \<^verbatim>\<open>src/main.go\<close>
  answers 200, with exactly the challenge, if the mode is "subscribe" and the token equals
  the configured token, and 403 in every other case.
\<close>

theorem webhook_verification:
  "webhookGETHandler q w =
     (if Query_Get q ''hub.mode'' = ''subscribe'' \<and> Query_Get q ''hub.verify_token'' \<noteq> [] \<and>
         Query_Get q ''hub.verify_token'' = VerifyToken (config w)
      then \<lparr>StatusCode = 200, Body = Query_Get q ''hub.challenge''\<rparr>
      else \<lparr>StatusCode = 403, Body = []\<rparr>) \<and>
   StatusCode (handleWebhookVerification q w) =
     (if Query_Get q ''hub.mode'' = ''subscribe'' \<and>
         Query_Get q ''hub.verify_token'' = VerifyToken (config w)
      then 200 else 403) \<and>
   (if StatusCode (handleWebhookVerification q w) = 200
    then Body (handleWebhookVerification q w) = Query_Get q ''hub.challenge''
    else True)"
  by (simp add: webhookGETHandler_def handleWebhookVerification_def http_Error_def Let_def)

theorem webhook_verification_witness:
  "webhookGETHandler [(''hub.mode'', ''subscribe''), (''hub.verify_token'', ''tok''),
                      (''hub.challenge'', ''abc123'')] w_fresh =
     \<lparr>StatusCode = 200, Body = ''abc123''\<rparr> \<and>
   webhookGETHandler [(''hub.mode'', ''subscribe''), (''hub.verify_token'', ''bad''),
                      (''hub.challenge'', ''abc123'')] w_fresh =
     \<lparr>StatusCode = 403, Body = []\<rparr> \<and>
   StatusCode (handleWebhookVerification [(''hub.mode'', ''subscribe''), (''hub.verify_token'', ''bad''),
                      (''hub.challenge'', ''abc123'')] w_fresh) = 403"
  using webhook_verification [of "[(''hub.mode'', ''subscribe''), (''hub.verify_token'', ''tok''),
                      (''hub.challenge'', ''abc123'')]" w_fresh]
    webhook_verification [of "[(''hub.mode'', ''subscribe''), (''hub.verify_token'', ''bad''),
                      (''hub.challenge'', ''abc123'')]" w_fresh]
  by (simp add: fixtures Query_Get_def)

text \<open>
  The claim as stated fails twice: with no verify token configured, a request in mode
  "subscribe" without a token has the configured token and is refused by
  \<^verbatim>\<open>webhookGETHandler\<close>; and the 403 of \<^verbatim>\<open>handleWebhookVerification\<close> has a body.
\<close>

theorem webhook_verification_counterexample:
  "Query_Get [(''hub.mode'', ''subscribe''), (''hub.challenge'', ''abc123'')] ''hub.mode'' = ''subscribe'' \<and>
   Query_Get [(''hub.mode'', ''subscribe''), (''hub.challenge'', ''abc123'')] ''hub.verify_token'' =
     VerifyToken (config (w_fresh\<lparr>config := cfg0\<lparr>VerifyToken := []\<rparr>\<rparr>)) \<and>
   webhookGETHandler [(''hub.mode'', ''subscribe''), (''hub.challenge'', ''abc123'')]
     (w_fresh\<lparr>config := cfg0\<lparr>VerifyToken := []\<rparr>\<rparr>) = \<lparr>StatusCode = 403, Body = []\<rparr> \<and>
   handleWebhookVerification [(''hub.mode'', ''subscribe''), (''hub.verify_token'', ''bad''),
                      (''hub.challenge'', ''abc123'')] w_fresh =
     \<lparr>StatusCode = 403, Body = ''Verification failed'' @ [CHR 0x0A]\<rparr>"
  by (simp add: fixtures Query_Get_def webhookGETHandler_def handleWebhookVerification_def http_Error_def)

subsection \<open>Dispatcher\<close>

lemma window_expired_Some:
  "window_expired (Some m) \<longleftrightarrow>
     (\<exists>errData. map_of m ''error'' = Some (JObject errData) \<and>
        map_of errData ''code'' = Some (JNumber 10) \<and>
        map_of errData ''error_subcode'' = Some (JNumber 2534022))"
proof (cases "map_of m ''error''")
  case None
  then show ?thesis by (simp add: window_expired_def)
next
  case (Some j)
  show ?thesis
  proof (cases j)
    case (JObject errData)
    have "(case map_of errData ''code'' of
             Some (JNumber code) \<Rightarrow>
               code = 10 \<and>
               (case map_of errData ''error_subcode'' of
                  Some (JNumber subcode) \<Rightarrow> subcode = 2534022
                | _ \<Rightarrow> False)
           | _ \<Rightarrow> False) \<longleftrightarrow>
          (map_of errData ''code'' = Some (JNumber 10) \<and>
           map_of errData ''error_subcode'' = Some (JNumber 2534022))"
      by (simp split: option.split json.split)
    with Some JObject show ?thesis by (simp add: window_expired_def)
  qed (use Some in \<open>simp_all add: window_expired_def\<close>)
qed

lemma window_expired_iff:
  "window_expired errResp \<longleftrightarrow>
     (\<exists>m errData. errResp = Some m \<and> map_of m ''error'' = Some (JObject errData) \<and>
        map_of errData ''code'' = Some (JNumber 10) \<and>
        map_of errData ''error_subcode'' = Some (JNumber 2534022))"
proof (cases errResp)
  case None
  then show ?thesis by (simp add: window_expired_def)
next
  case (Some m)
  then show ?thesis by (simp add: window_expired_Some)
qed

lemma sendDM_builds:
  assumes "json_Marshal (lib w) recipientID message = Inr data"
    and "http_NewRequest (lib w) (sendDM_url b (config w)) = None"
  shows "sendDM b recipientID message w =
         Inr (sendDM_result b (replies w (requests w)),
              w\<lparr>requests := Suc (requests w),
                trace := trace w @ [Post (sendDM_url b (config w)) data]\<rparr>)"
  using assms by (cases b) (simp_all add: sendDM_def Let_def)

text \<open>
  C6, as amended. \<^verbatim>\<open>sendDM\<close> of \<^verbatim>\<open>part_001\<close> takes a response with status 200 or 201
  as a success and every other response as a failure. A failure whose decoded body has an
  object \<^verbatim>\<open>error\<close> with \<^verbatim>\<open>code\<close> 10 and \<^verbatim>\<open>error_subcode\<close> 2534022 is the error
  \<^verbatim>\<open>24_hour_messaging_window_expired\<close>, which no generic error equals; every other
  failure is the error \<^verbatim>\<open>api_error_<status>: <body>\<close>; an error of the transport is
  returned as it is. \<^verbatim>\<open>sendDM\<close> of \<^verbatim>\<open>src/main.go\<close> takes status 200 as a success; every
  other response, whatever its body, is the error \<^verbatim>\<open>API error (status <status>): <body>\<close>,
  and an error of the transport is wrapped in \<^verbatim>\<open>failed to send request\<close>. In both
  builds a request that can be built is sent once, and what \<^verbatim>\<open>sendDM\<close> returns is this
  classification of its outcome.
\<close>

theorem sendDM_classification:
  "sendDM_result Part_001 (Response code body errResp) =
     (if code = 200 \<or> code = 201 then None
      else if \<exists>m errData. errResp = Some m \<and> map_of m ''error'' = Some (JObject errData) \<and>
                map_of errData ''code'' = Some (JNumber 10) \<and>
                map_of errData ''error_subcode'' = Some (JNumber 2534022)
           then Some (''24_hour_messaging_window_expired: '' @
                      ''User must message you first or within 24 hours'')
           else Some (''api_error_'' @ fmt_d code @ '': '' @ body)) \<and>
   ''24_hour_messaging_window_expired: '' @ ''User must message you first or within 24 hours''
     \<noteq> ''api_error_'' @ fmt_d code' @ '': '' @ body' \<and>
   sendDM_result Part_001 (TransportError e) = Some e \<and>
   sendDM_result Main_go (Response code body errResp) =
     (if code = 200 then None
      else Some (''API error (status '' @ fmt_d code @ ''): '' @ body)) \<and>
   sendDM_result Main_go (TransportError e) = Some (''failed to send request: '' @ e) \<and>
   (json_Marshal (lib w) recipientID message = Inr data \<and>
    http_NewRequest (lib w) (sendDM_url b (config w)) = None \<longrightarrow>
      sendDM b recipientID message w =
        Inr (sendDM_result b (replies w (requests w)),
             w\<lparr>requests := Suc (requests w),
               trace := trace w @ [Post (sendDM_url b (config w)) data]\<rparr>))"
  using window_expired_iff [of errResp] sendDM_builds [of w recipientID message data b]
  by simp

theorem sendDM_classification_witness:
  "sendDM_result Part_001 (Response 200 ''{}'' (Some [])) = None \<and>
   sendDM_result Part_001 (Response 201 ''{}'' (Some [])) = None \<and>
   sendDM_result Part_001 (Response 403 ''x''
      (Some [(''error'', JObject [(''message'', JString ''no''), (''code'', JNumber 10),
                                  (''error_subcode'', JNumber 2534022)])])) =
     Some ''24_hour_messaging_window_expired: User must message you first or within 24 hours'' \<and>
   sendDM_result Part_001 (Response 500 ''down'' None) = Some ''api_error_500: down'' \<and>
   sendDM_result Main_go (Response 500 ''down'' None) = Some ''API error (status 500): down'' \<and>
   json_Marshal (lib w_fresh) ''123'' ''hi'' = Inr data0 \<and>
   http_NewRequest (lib w_fresh) (sendDM_url Part_001 (config w_fresh)) = None \<and>
   sendDM Part_001 ''123'' ''hi'' w_fresh =
     Inr (Some ''api_error_403: no'', w_fresh\<lparr>requests := 1, trace := [Post url0 data0]\<rparr>)"
proof -
  have m: "json_Marshal (lib w_fresh) ''123'' ''hi'' = Inr data0"
    by (simp add: fixtures data0_def)
  have r: "http_NewRequest (lib w_fresh) (sendDM_url Part_001 (config w_fresh)) = None"
    by (simp add: fixtures sendDM_url_def)
  have u: "sendDM_url Part_001 (config w_fresh) = url0"
    by (simp add: fixtures sendDM_url_def)
  have s: "sendDM Part_001 ''123'' ''hi'' w_fresh =
     Inr (Some ''api_error_403: no'', w_fresh\<lparr>requests := 1, trace := [Post url0 data0]\<rparr>)"
    using sendDM_classification
      [where w = w_fresh and recipientID = "''123''" and message = "''hi''" and data = data0
         and b = Part_001 and code = 0 and body = "[]" and errResp = None and code' = 0
         and body' = "[]" and e = "[]"] m r
    unfolding u
    by (simp add: w_fresh_def fmt_d_def digits.simps window_expired_def)
  show ?thesis
    using sendDM_classification
      [where code = 200 and body = "''{}''" and errResp = "Some []" and code' = 0 and body' = "[]"
         and e = "[]" and b = Part_001 and w = w_fresh and recipientID = "[]" and message = "[]"
         and data = "[]"]
    sendDM_classification
      [where code = 201 and body = "''{}''" and errResp = "Some []" and code' = 0 and body' = "[]"
         and e = "[]" and b = Part_001 and w = w_fresh and recipientID = "[]" and message = "[]"
         and data = "[]"]
    sendDM_classification
      [where code = 403 and body = "''x''"
         and errResp = "Some [(''error'', JObject [(''message'', JString ''no''), (''code'', JNumber 10),
                                  (''error_subcode'', JNumber 2534022)])]"
         and code' = 0 and body' = "[]"
         and e = "[]" and b = Part_001 and w = w_fresh and recipientID = "[]" and message = "[]"
         and data = "[]"]
    sendDM_classification
      [where code = 500 and body = "''down''" and errResp = None and code' = 0 and body' = "[]"
         and e = "[]" and b = Part_001 and w = w_fresh and recipientID = "[]" and message = "[]"
         and data = "[]"]
    m r s
    by (simp add: fmt_d_def digits.simps)
qed

text \<open>
  The claim as stated fails at status 204 (and, in \<^verbatim>\<open>src/main.go\<close>, at 201): a 2xx
  response that is reported as a failure. And \<^verbatim>\<open>src/main.go\<close> does not look for the
  code and subcode of the expired window: the response that \<^verbatim>\<open>part_001\<close> reports as
  \<^verbatim>\<open>24_hour_messaging_window_expired\<close> is a generic error there.
\<close>

theorem sendDM_classification_counterexample:
  "sendDM_result Part_001 (Response 204 [] None) = Some ''api_error_204: '' \<and>
   sendDM_result Main_go (Response 201 ''{}'' (Some [])) = Some ''API error (status 201): {}'' \<and>
   sendDM_result Part_001 (Response 403 ''x''
      (Some [(''error'', JObject [(''code'', JNumber 10), (''error_subcode'', JNumber 2534022)])])) =
     Some ''24_hour_messaging_window_expired: User must message you first or within 24 hours'' \<and>
   sendDM_result Main_go (Response 403 ''x''
      (Some [(''error'', JObject [(''code'', JNumber 10), (''error_subcode'', JNumber 2534022)])])) =
     Some ''API error (status 403): x''"
  by (simp add: fmt_d_def digits.simps window_expired_def)

subsection \<open>Retry controller\<close>

lemma wrap64_id: "- (2 ^ 63) \<le> x \<Longrightarrow> x < 2 ^ 63 \<Longrightarrow> wrap64 x = x"
  by (simp add: wrap64_def)

lemma backoff_exact:
  assumes "0 \<le> RetryBackoffBase c" and "1 \<le> k"
    and "RetryBackoffBase c * 2 ^ nat (k - 1) < 2 ^ 63"
  shows "backoff c k = RetryBackoffBase c * 2 ^ nat (k - 1)"
proof (cases "RetryBackoffBase c = 0")
  case True
  then show ?thesis by (simp add: backoff_def wrap64_def)
next
  case False
  with assms(1) have b: "1 \<le> RetryBackoffBase c" by simp
  have "1 * (2::int) ^ nat (k - 1) \<le> RetryBackoffBase c * 2 ^ nat (k - 1)"
    using b by (intro mult_right_mono) simp_all
  then have le: "(2::int) ^ nat (k - 1) \<le> RetryBackoffBase c * 2 ^ nat (k - 1)" by simp
  have p: "(2::int) ^ nat (k - 1) < 2 ^ 63"
    by (rule le_less_trans [OF le assms(3)])
  have "nat (k - 1) < 63"
    by (rule power_less_imp_less_exp [of "2::int"]) (use p in simp_all)
  with assms(2) have k: "0 \<le> k - 1" "k - 1 < 63" by simp_all
  have w: "wrap64 (k - 1) = k - 1" using k by (intro wrap64_id) simp_all
  have u: "uint64 (k - 1) = k - 1" using k by (simp add: uint64_def)
  have "- (2 ^ 63) \<le> (2::int) ^ nat (k - 1)"
    by (rule order_trans [of _ 0]) simp_all
  then have "wrap64 (2 ^ nat (k - 1)) = 2 ^ nat (k - 1)"
    using p by (rule wrap64_id)
  then have s: "shl64 1 (k - 1) = 2 ^ nat (k - 1)"
    using k by (simp add: shl64_def)
  have "0 \<le> RetryBackoffBase c * 2 ^ nat (k - 1)" using assms(1) by simp
  then have "wrap64 (RetryBackoffBase c * 2 ^ nat (k - 1)) = RetryBackoffBase c * 2 ^ nat (k - 1)"
    using assms(3) by (intro wrap64_id) simp_all
  then show ?thesis by (simp add: backoff_def w u s)
qed

lemma builds_request_frame:
  "lib w' = lib w \<Longrightarrow> config w' = config w \<Longrightarrow>
   builds_request b job w' data = builds_request b job w data"
  by (simp add: builds_request_def)

lemma sendDM_job:
  assumes "builds_request b job w data"
  shows "sendDM b (UserID job) (DMMessage (config w)) w =
         Inr (sendDM_result b (replies w (requests w)),
              w\<lparr>requests := Suc (requests w),
                trace := trace w @ [Post (sendDM_url b (config w)) data]\<rparr>)"
  using assms by (intro sendDM_builds) (simp_all add: builds_request_def)

lemma sendDM_after_sleep:
  assumes "builds_request b job w data"
  shows "sendDM b (UserID job)
           (DMMessage (config (if 0 < a then time_Sleep (backoff (config w) a) w else w)))
           (if 0 < a then time_Sleep (backoff (config w) a) w else w) =
         Inr (sendDM_result b (replies w (requests w)),
              attempt_world (sendDM_url b (config w)) data a w)"
proof (cases "0 < a")
  case True
  have "builds_request b job (time_Sleep (backoff (config w) a) w) data"
    using assms by (simp add: builds_request_def time_Sleep_def)
  from sendDM_job [OF this] True show ?thesis
    by (simp add: time_Sleep_def attempt_world_def attempt_events_def)
next
  case False
  with sendDM_job [OF assms] show ?thesis
    by (simp add: attempt_world_def attempt_events_def)
qed

lemma loop_exit:
  "\<not> a \<le> MaxRetries (config w) \<Longrightarrow>
   sendDMWithRetry_loop b job a lastErr w = Some (Inr (lastErr, w))"
  by (subst sendDMWithRetry_loop.simps) simp

lemma loop_step_ok:
  assumes "a \<le> MaxRetries (config w)" "builds_request b job w data"
    and "sendDM_result b (replies w (requests w)) = None"
  shows "sendDMWithRetry_loop b job a lastErr w =
         Some (Inr (None, attempt_world (sendDM_url b (config w)) data a w))"
  using assms(1,3)
  by (subst sendDMWithRetry_loop.simps) (simp add: Let_def sendDM_after_sleep [OF assms(2)])

lemma loop_step_fail:
  assumes "a \<le> MaxRetries (config w)" "builds_request b job w data"
    and "sendDM_result b (replies w (requests w)) = Some e"
  shows "sendDMWithRetry_loop b job a lastErr w =
         sendDMWithRetry_loop b job (wrap64 (a + 1)) (Some e)
           (attempt_world (sendDM_url b (config w)) data a w)"
  using assms(1,3)
  by (subst sendDMWithRetry_loop.simps) (simp add: Let_def sendDM_after_sleep [OF assms(2)])

lemma map_upt_shift:
  "map f [0..<Suc n] = f 0 # map (\<lambda>k. f (Suc k)) [0..<n]"
  by (simp add: upt_conv_Cons map_Suc_upt [symmetric] del: upt_Suc)

lemma loop_fail_prefix:
  assumes "0 \<le> a" "a + int n \<le> MaxRetries (config w) + 1" "MaxRetries (config w) < 2 ^ 63 - 1"
    and "\<forall>i<n. sendDM_result b (replies w (requests w + i)) \<noteq> None"
    and "builds_request b job w data"
  shows "sendDMWithRetry_loop b job a lastErr w =
         sendDMWithRetry_loop b job (a + int n)
           (if n = 0 then lastErr else sendDM_result b (replies w (requests w + (n - 1))))
           (w\<lparr>requests := requests w + n,
              trace := trace w @
                concat (map (\<lambda>k. attempt_events (config w) (sendDM_url b (config w)) data (a + int k))
                          [0..<n])\<rparr>)"
  using assms
proof (induction n arbitrary: a lastErr w)
  case 0
  show ?case by simp
next
  case (Suc n)
  let ?u = "sendDM_url b (config w)"
  let ?w1 = "attempt_world ?u data a w"
  have a: "a \<le> MaxRetries (config w)" using Suc.prems(2) by simp
  obtain e where e: "sendDM_result b (replies w (requests w)) = Some e"
    using Suc.prems(4) [rule_format, of 0] by auto
  have wr: "wrap64 (a + 1) = a + 1"
    using Suc.prems(1,3) a by (intro wrap64_id) simp_all
  have step: "sendDMWithRetry_loop b job a lastErr w =
              sendDMWithRetry_loop b job (a + 1) (Some e) ?w1"
    using loop_step_fail [OF a Suc.prems(5) e] wr by simp
  have c: "config ?w1 = config w" "replies ?w1 = replies w" "requests ?w1 = Suc (requests w)"
    "trace ?w1 = trace w @ attempt_events (config w) ?u data a" "lib ?w1 = lib w"
    by (simp_all add: attempt_world_def)
  have p1: "0 \<le> a + 1" using Suc.prems(1) by simp
  have p2: "a + 1 + int n \<le> MaxRetries (config ?w1) + 1" using Suc.prems(2) c by simp
  have p3: "MaxRetries (config ?w1) < 2 ^ 63 - 1" using Suc.prems(3) c by simp
  have p4: "\<forall>i<n. sendDM_result b (replies ?w1 (requests ?w1 + i)) \<noteq> None"
    using Suc.prems(4) c by auto
  have p5: "builds_request b job ?w1 data"
    using Suc.prems(5) builds_request_frame [OF c(5) c(1)] by simp
  have last: "(if n = 0 then Some e else sendDM_result b (replies ?w1 (requests ?w1 + (n - 1)))) =
              sendDM_result b (replies w (requests w + (Suc n - 1)))"
    using e c by (cases n) simp_all
  have tr: "trace ?w1 @
              concat (map (\<lambda>k. attempt_events (config ?w1) (sendDM_url b (config ?w1)) data (a + 1 + int k))
                        [0..<n]) =
            trace w @ concat (map (\<lambda>k. attempt_events (config w) ?u data (a + int k)) [0..<Suc n])"
    unfolding map_upt_shift by (simp add: c ac_simps)
  have wd: "?w1\<lparr>requests := requests ?w1 + n,
                trace := trace ?w1 @
                  concat (map (\<lambda>k. attempt_events (config ?w1) (sendDM_url b (config ?w1)) data
                                     (a + 1 + int k)) [0..<n])\<rparr> =
            w\<lparr>requests := requests w + Suc n,
              trace := trace w @ concat (map (\<lambda>k. attempt_events (config w) ?u data (a + int k)) [0..<Suc n])\<rparr>"
    unfolding tr by (simp add: attempt_world_def)
  have "sendDMWithRetry_loop b job (a + 1) (Some e) ?w1 =
        sendDMWithRetry_loop b job (a + 1 + int n)
          (if n = 0 then Some e else sendDM_result b (replies ?w1 (requests ?w1 + (n - 1))))
          (?w1\<lparr>requests := requests ?w1 + n,
               trace := trace ?w1 @
                 concat (map (\<lambda>k. attempt_events (config ?w1) (sendDM_url b (config ?w1)) data
                                    (a + 1 + int k)) [0..<n])\<rparr>)"
    by (rule Suc.IH [OF p1 p2 p3 p4 p5])
  also have "\<dots> = sendDMWithRetry_loop b job (a + int (Suc n))
                     (sendDM_result b (replies w (requests w + (Suc n - 1))))
                     (w\<lparr>requests := requests w + Suc n,
                        trace := trace w @
                          concat (map (\<lambda>k. attempt_events (config w) ?u data (a + int k)) [0..<Suc n])\<rparr>)"
    unfolding last wd by (simp add: ac_simps)
  finally show ?case using step by simp
qed

lemma sendDMWithRetry_all_fail:
  assumes "0 \<le> MaxRetries (config w)" "MaxRetries (config w) < 2 ^ 63 - 1"
    and "\<forall>i\<le>nat (MaxRetries (config w)). sendDM_result b (replies w (requests w + i)) \<noteq> None"
    and "builds_request b job w data"
  shows "sendDMWithRetry b job w =
         Some (Inr (sendDM_result b (replies w (requests w + nat (MaxRetries (config w)))),
               w\<lparr>requests := requests w + (nat (MaxRetries (config w)) + 1),
                  trace := trace w @
                    retry_events (config w) (sendDM_url b (config w)) data
                      (nat (MaxRetries (config w)) + 1)\<rparr>))"
proof -
  let ?n = "nat (MaxRetries (config w)) + 1"
  let ?u = "sendDM_url b (config w)"
  let ?w' = "w\<lparr>requests := requests w + ?n,
               trace := trace w @ concat (map (\<lambda>k. attempt_events (config w) ?u data (0 + int k)) [0..<?n])\<rparr>"
  have f: "\<forall>i<?n. sendDM_result b (replies w (requests w + i)) \<noteq> None"
    using assms(3) by auto
  have n: "0 + int ?n \<le> MaxRetries (config w) + 1" using assms(1) by simp
  have "sendDMWithRetry_loop b job 0 None w =
        sendDMWithRetry_loop b job (0 + int ?n)
          (if ?n = 0 then None else sendDM_result b (replies w (requests w + (?n - 1)))) ?w'"
    using loop_fail_prefix [OF _ n assms(2) f assms(4)] by simp
  moreover have "\<not> 0 + int ?n \<le> MaxRetries (config ?w')" using assms(1) by simp
  ultimately show ?thesis
    by (simp add: sendDMWithRetry_def loop_exit retry_events_def)
qed

lemma sendDMWithRetry_first_success:
  assumes "int k \<le> MaxRetries (config w)" "MaxRetries (config w) < 2 ^ 63 - 1"
    and "\<forall>i<k. sendDM_result b (replies w (requests w + i)) \<noteq> None"
    and "sendDM_result b (replies w (requests w + k)) = None"
    and "builds_request b job w data"
  shows "sendDMWithRetry b job w =
         Some (Inr (None, w\<lparr>requests := requests w + (k + 1),
                       trace := trace w @
                         retry_events (config w) (sendDM_url b (config w)) data (k + 1)\<rparr>))"
proof -
  let ?u = "sendDM_url b (config w)"
  let ?w' = "w\<lparr>requests := requests w + k,
               trace := trace w @ concat (map (\<lambda>i. attempt_events (config w) ?u data (0 + int i)) [0..<k])\<rparr>"
  have n: "0 + int k \<le> MaxRetries (config w) + 1" using assms(1) by simp
  have "sendDMWithRetry_loop b job 0 None w =
        sendDMWithRetry_loop b job (0 + int k)
          (if k = 0 then None else sendDM_result b (replies w (requests w + (k - 1)))) ?w'"
    using loop_fail_prefix [OF _ n assms(2,3,5)] by simp
  moreover have "0 + int k \<le> MaxRetries (config ?w')" using assms(1) by simp
  moreover have "sendDM_result b (replies ?w' (requests ?w')) = None" using assms(4) by simp
  moreover have "builds_request b job ?w' data"
    using assms(5) by (simp add: builds_request_def)
  ultimately have "sendDMWithRetry_loop b job 0 None w =
                   Some (Inr (None, attempt_world (sendDM_url b (config ?w')) data (0 + int k) ?w'))"
    using loop_step_ok by simp
  then show ?thesis
    by (simp add: sendDMWithRetry_def attempt_world_def retry_events_def)
qed


lemma filter_Post_attempt: "filter is_Post (attempt_events c url data a) = [Post url data]"
  by (simp add: attempt_events_def)

lemma length_Post_retry_events: "length (filter is_Post (retry_events c url data n)) = n"
  by (induction n) (simp_all add: retry_events_def filter_Post_attempt)


lemma retry_events_Suc:
  "retry_events c url data (Suc n) =
     retry_events c url data n @ (if n = 0 then [] else [Sleep (backoff c (int n))]) @
     [Post url data]"
  by (simp add: retry_events_def attempt_events_def)

lemma retry_events_0: "retry_events c url data 0 = []"
  by (simp add: retry_events_def)

lemma length_retry_events: "length (retry_events c url data (Suc n)) = 2 * n + 1"
  by (induction n) (simp_all add: retry_events_Suc retry_events_0)

text \<open>With \<open>MaxRetries = 2^63 - 1\<close> the counter wraps before it can exceed the bound.\<close>

lemma wrap64_range: "- (2 ^ 63) \<le> wrap64 x \<and> wrap64 x < 2 ^ 63"
proof -
  have "0 \<le> (x + 2 ^ 63) mod 2 ^ 64" "(x + 2 ^ 63) mod 2 ^ 64 < 2 ^ 64"
    by simp_all
  then show ?thesis unfolding wrap64_def by simp
qed

lemma loop_never_returns:
  assumes "sendDMWithRetry_loop b job attempt lastErr w = Some y"
  shows "\<not> (MaxRetries (config w) = 2 ^ 63 - 1 \<and> attempt < 2 ^ 63 \<and>
            builds_request b job w data \<and>
            (\<forall>n. sendDM_result b (replies w n) \<noteq> None))"
proof -
  define P :: "build \<Rightarrow> DMJob \<Rightarrow> int \<Rightarrow> string option \<Rightarrow> world \<Rightarrow>
               string + (string option \<times> world) \<Rightarrow> bool"
    where "P = (\<lambda>b job attempt lastErr w y.
            \<not> (MaxRetries (config w) = 2 ^ 63 - 1 \<and> attempt < 2 ^ 63 \<and>
               builds_request b job w data \<and>
               (\<forall>n. sendDM_result b (replies w n) \<noteq> None)))"
  have "P b job attempt lastErr w y"
  proof (rule sendDMWithRetry_loop.raw_induct [where P = P, OF _ assms])
    fix loop b job attempt lastErr w y
    assume IH: "\<And>b' job' attempt' lastErr' w' y'.
                  loop b' job' attempt' lastErr' w' = Some y' \<Longrightarrow> P b' job' attempt' lastErr' w' y'"
      and body: "(if attempt \<le> MaxRetries (config w) then
                    (let w1 = (if 0 < attempt then time_Sleep (backoff (config w) attempt) w else w)
                     in case sendDM b (UserID job) (DMMessage (config w1)) w1 of
                          Inl p \<Rightarrow> Some (Inl p)
                        | Inr r \<Rightarrow>
                            (case fst r of
                               None \<Rightarrow> Some (Inr (None, snd r))
                             | Some err \<Rightarrow> loop b job (wrap64 (attempt + 1)) (Some err) (snd r)))
                  else Some (Inr (lastErr, w))) = Some y"
    show "P b job attempt lastErr w y"
      unfolding P_def
    proof
      assume inv: "MaxRetries (config w) = 2 ^ 63 - 1 \<and> attempt < 2 ^ 63 \<and>
                   builds_request b job w data \<and>
                   (\<forall>n. sendDM_result b (replies w n) \<noteq> None)"
      let ?w2 = "attempt_world (sendDM_url b (config w)) data attempt w"
      have le: "attempt \<le> MaxRetries (config w)" using inv by simp
      have br: "builds_request b job w data" using inv by simp
      have c: "config ?w2 = config w" "replies ?w2 = replies w" "lib ?w2 = lib w"
        by (simp_all add: attempt_world_def)
      obtain e where e: "sendDM_result b (replies w (requests w)) = Some e"
        using inv by blast
      have "loop b job (wrap64 (attempt + 1)) (Some e) ?w2 = Some y"
        using body le e by (simp add: Let_def sendDM_after_sleep [OF br])
      then have "P b job (wrap64 (attempt + 1)) (Some e) ?w2 y" by (rule IH)
      then show False
        using inv wrap64_range [of "attempt + 1"] builds_request_frame [OF c(3) c(1), of b job data]
        unfolding P_def c by simp
    qed
  qed
  then show ?thesis by (simp add: P_def)
qed

lemma sendDMWithRetry_forever:
  assumes "MaxRetries (config w) = 2 ^ 63 - 1" "\<forall>n. sendDM_result b (replies w n) \<noteq> None"
    and "builds_request b job w data"
  shows "sendDMWithRetry b job w = None"
proof (cases "sendDMWithRetry b job w")
  case None
  then show ?thesis .
next
  case (Some y)
  then have "sendDMWithRetry_loop b job 0 None w = Some y" by (simp add: sendDMWithRetry_def)
  from loop_never_returns [OF this, of data] assms show ?thesis by simp
qed

lemma builds_request_sample:
  "builds_request Part_001 job0 (w_fresh\<lparr>config := cfg0\<lparr>MaxRetries := m\<rparr>\<rparr>) data0"
  "builds_request Part_001 job0 w_fresh data0"
  by (simp_all add: builds_request_def fixtures data0_def sendDM_url_def)

lemma sendDM_url_sample:
  "sendDM_url Part_001 (cfg0\<lparr>MaxRetries := m\<rparr>) = url0"
  "sendDM_url Part_001 cfg0 = url0"
  by (simp_all add: fixtures sendDM_url_def)

text \<open>
  C2, as amended. For a job whose request \<^verbatim>\<open>sendDM\<close> can build and for
  \<open>0 \<le> MaxRetries < 2^63 - 1\<close>: when every attempt fails, \<^verbatim>\<open>sendDMWithRetry\<close> returns,
  with the error of the last attempt, after exactly \<open>MaxRetries + 1\<close> requests; when
  attempt \<open>k\<close> is the first that does not fail, it returns \<^verbatim>\<open>nil\<close> after exactly
  \<open>k + 1\<close> requests. No sleep precedes the first request, and the \<open>n\<close>-th retry is
  preceded by one sleep of \<open>backoff\<close>, the product
  \<^verbatim>\<open>RetryBackoffBase * (1 << (n-1))\<close> taken in int64; this is
  \<open>RetryBackoffBase * 2^(n-1)\<close> as long as that number is below \<open>2^63\<close> nanoseconds.
\<close>

theorem sendDMWithRetry_contract:
  assumes "0 \<le> MaxRetries (config w)" and "MaxRetries (config w) < 2 ^ 63 - 1"
    and "builds_request b job w data"
  shows "((\<forall>i\<le>nat (MaxRetries (config w)). sendDM_result b (replies w (requests w + i)) \<noteq> None) \<longrightarrow>
            sendDMWithRetry b job w =
              Some (Inr (sendDM_result b (replies w (requests w + nat (MaxRetries (config w)))),
                    w\<lparr>requests := requests w + (nat (MaxRetries (config w)) + 1),
                      trace := trace w @
                        retry_events (config w) (sendDM_url b (config w)) data
                          (nat (MaxRetries (config w)) + 1)\<rparr>))) \<and>
         (\<forall>k. int k \<le> MaxRetries (config w) \<and>
              (\<forall>i<k. sendDM_result b (replies w (requests w + i)) \<noteq> None) \<and>
              sendDM_result b (replies w (requests w + k)) = None \<longrightarrow>
            sendDMWithRetry b job w =
              Some (Inr (None, w\<lparr>requests := requests w + (k + 1),
                            trace := trace w @
                              retry_events (config w) (sendDM_url b (config w)) data (k + 1)\<rparr>))) \<and>
         length (filter is_Post (retry_events (config w) (sendDM_url b (config w)) data n)) = n \<and>
         retry_events (config w) (sendDM_url b (config w)) data (Suc n) =
           retry_events (config w) (sendDM_url b (config w)) data n @
           (if n = 0 then [] else [Sleep (backoff (config w) (int n))]) @
           [Post (sendDM_url b (config w)) data] \<and>
         (0 \<le> RetryBackoffBase (config w) \<and> 1 \<le> n \<and>
          RetryBackoffBase (config w) * 2 ^ (n - 1) < 2 ^ 63 \<longrightarrow>
            backoff (config w) (int n) = RetryBackoffBase (config w) * 2 ^ (n - 1)) \<and>
         retry_events (config w) (sendDM_url b (config w)) data 0 = []"
proof -
  let ?u = "sendDM_url b (config w)"
  have bo: "backoff (config w) (int n) = RetryBackoffBase (config w) * 2 ^ (n - 1)"
    if "0 \<le> RetryBackoffBase (config w)" "1 \<le> n" "RetryBackoffBase (config w) * 2 ^ (n - 1) < 2 ^ 63"
  proof -
    have "nat (int n - 1) = n - 1" by simp
    then show ?thesis
      using backoff_exact [of "config w" "int n"] that by simp
  qed
  show ?thesis
    using sendDMWithRetry_all_fail [OF assms(1,2) _ assms(3)]
      sendDMWithRetry_first_success [OF _ assms(2) _ _ assms(3)]
      length_Post_retry_events [of "config w" ?u data n] retry_events_Suc [of "config w" ?u data n] bo
      retry_events_0 [of "config w" ?u data]
    by blast
qed

theorem sendDMWithRetry_contract_witness:
  "0 \<le> MaxRetries (config w_fresh) \<and> MaxRetries (config w_fresh) < 2 ^ 63 - 1 \<and>
   json_Marshal (lib w_fresh) (UserID job0) (DMMessage (config w_fresh)) = Inr data0 \<and>
   http_NewRequest (lib w_fresh) (sendDM_url Part_001 (config w_fresh)) = None \<and>
   sendDMWithRetry Part_001 job0 w_fresh =
     Some (Inr (Some ''api_error_403: no'',
           w_fresh\<lparr>requests := 4,
                   trace := [Post url0 data0, Sleep 2000000000, Post url0 data0,
                             Sleep 4000000000, Post url0 data0,
                             Sleep 8000000000, Post url0 data0]\<rparr>)) \<and>
   sendDMWithRetry Part_001 job0
       (w_fresh\<lparr>replies := \<lambda>n. if n = 1 then Response 200 ''{}'' (Some []) else Response 403 ''no'' None\<rparr>) =
     Some (Inr (None,
           w_fresh\<lparr>replies := \<lambda>n. if n = 1 then Response 200 ''{}'' (Some []) else Response 403 ''no'' None,
                   requests := 2,
                   trace := [Post url0 data0, Sleep 2000000000, Post url0 data0]\<rparr>))"
proof -
  let ?w = "w_fresh\<lparr>replies := \<lambda>n. if n = 1 then Response 200 ''{}'' (Some []) else Response 403 ''no'' None\<rparr>"
  have h: "0 \<le> MaxRetries (config w_fresh)" "MaxRetries (config w_fresh) < 2 ^ 63 - 1"
    "builds_request Part_001 job0 w_fresh data0"
    by (simp_all add: builds_request_sample) (simp_all add: fixtures)
  have g: "0 \<le> MaxRetries (config ?w)" "MaxRetries (config ?w) < 2 ^ 63 - 1"
    "builds_request Part_001 job0 ?w data0"
    using h by (simp_all add: builds_request_def)
  have c: "config w_fresh = cfg0" "config ?w = cfg0" by (simp_all add: w_fresh_def)
  have n3: "nat (MaxRetries cfg0) = 3" by (simp add: fixtures)
  have ev4: "retry_events cfg0 url0 data0 4 =
               [Post url0 data0, Sleep 2000000000, Post url0 data0,
                Sleep 4000000000, Post url0 data0, Sleep 8000000000, Post url0 data0]"
    by (simp add: eval_nat_numeral retry_events_Suc retry_events_0)
       (simp add: cfg0_def backoff_def wrap64_def shl64_def uint64_def)
  have ev2: "retry_events cfg0 url0 data0 (Suc (Suc 0)) =
               [Post url0 data0, Sleep 2000000000, Post url0 data0]"
    by (simp add: eval_nat_numeral retry_events_Suc retry_events_0)
       (simp add: cfg0_def backoff_def wrap64_def shl64_def uint64_def)
  have a: "sendDMWithRetry Part_001 job0 w_fresh =
     Some (Inr (Some ''api_error_403: no'',
           w_fresh\<lparr>requests := 4,
                   trace := [Post url0 data0, Sleep 2000000000, Post url0 data0,
                             Sleep 4000000000, Post url0 data0,
                             Sleep 8000000000, Post url0 data0]\<rparr>))"
    using sendDMWithRetry_contract [OF h, of 0, THEN conjunct1] ev4
    unfolding c n3 sendDM_url_sample
    by (simp add: w_fresh_def fmt_d_def digits.simps window_expired_def)
  have b: "sendDMWithRetry Part_001 job0 ?w =
     Some (Inr (None, ?w\<lparr>requests := 2,
                   trace := [Post url0 data0, Sleep 2000000000, Post url0 data0]\<rparr>))"
    using sendDMWithRetry_contract [OF g, of 0, THEN conjunct2, THEN conjunct1,
        rule_format, of 1] ev2
    unfolding c sendDM_url_sample
    by (simp add: w_fresh_def cfg0_def window_expired_def numeral_2_eq_2)
  have m: "json_Marshal (lib w_fresh) (UserID job0) (DMMessage (config w_fresh)) = Inr data0"
    "http_NewRequest (lib w_fresh) (sendDM_url Part_001 (config w_fresh)) = None"
    using h(3) by (simp_all add: builds_request_def)
  from h(1,2) m a b show ?thesis by simp
qed

text \<open>
  The claim as stated fails for large retry counts: with the base of 2 s and
  \<^verbatim>\<open>MAX_RETRIES=34\<close>, the sleep before retry 34 would be \<open>2^34\<close> s, which int64
  nanoseconds cannot hold; the product wraps to a negative duration, and
  \<^verbatim>\<open>time.Sleep\<close> of a negative duration returns at once. With
  \<^verbatim>\<open>MAX_RETRIES=9223372036854775807\<close> and an endpoint that always fails, the loop
  never returns. And it fails where the request cannot be built: with
  \<^verbatim>\<open>IG_BUSINESS_ID=%zz\<close> the URL does not parse; \<^verbatim>\<open>part_001\<close> panics at the first
  attempt, and \<^verbatim>\<open>src/main.go\<close> returns an error after four calls of \<^verbatim>\<open>sendDM\<close> that
  sent no request.
\<close>

theorem sendDMWithRetry_contract_counterexample:
  "MaxRetries (config (w_fresh\<lparr>config := cfg0\<lparr>MaxRetries := 34\<rparr>\<rparr>)) = 34 \<and>
   RetryBackoffBase (config (w_fresh\<lparr>config := cfg0\<lparr>MaxRetries := 34\<rparr>\<rparr>)) * 2 ^ (34 - 1) =
     17179869184000000000 \<and>
   map_option (map_sum id (\<lambda>r. trace (snd r) ! 67))
     (sendDMWithRetry Part_001 job0 (w_fresh\<lparr>config := cfg0\<lparr>MaxRetries := 34\<rparr>\<rparr>)) =
     Some (Inr (Sleep (- 1266874889709551616))) \<and>
   sendDMWithRetry Part_001 job0 (w_fresh\<lparr>config := cfg0\<lparr>MaxRetries := 2 ^ 63 - 1\<rparr>\<rparr>) = None \<and>
   sendDMWithRetry Part_001 job0 (w_fresh\<lparr>config := cfg0\<lparr>IGBusinessID := ''%zz''\<rparr>\<rparr>) =
     Some (Inl ''runtime error: invalid memory address or nil pointer dereference'') \<and>
   sendDMWithRetry Main_go job0 (w_fresh\<lparr>config := cfg0\<lparr>IGBusinessID := ''%zz''\<rparr>\<rparr>) =
     Some (Inr (Some ''failed to create request: invalid URL escape'',
                w_fresh\<lparr>config := cfg0\<lparr>IGBusinessID := ''%zz''\<rparr>,
                        trace := [Sleep 2000000000, Sleep 4000000000, Sleep 8000000000]\<rparr>))"
proof -
  have forever:
    "sendDMWithRetry Part_001 job0 (w_fresh\<lparr>config := cfg0\<lparr>MaxRetries := 2 ^ 63 - 1\<rparr>\<rparr>) = None"
    by (rule sendDMWithRetry_forever [OF _ _ builds_request_sample(1)]) (simp_all add: fixtures)
  have panic:
    "sendDMWithRetry Part_001 job0 (w_fresh\<lparr>config := cfg0\<lparr>IGBusinessID := ''%zz''\<rparr>\<rparr>) =
     Some (Inl ''runtime error: invalid memory address or nil pointer dereference'')"
    by (simp add: sendDMWithRetry_def sendDMWithRetry_loop.simps sendDM_def sendDM_url_def
          fixtures Let_def)
  have norequest:
    "sendDMWithRetry Main_go job0 (w_fresh\<lparr>config := cfg0\<lparr>IGBusinessID := ''%zz''\<rparr>\<rparr>) =
     Some (Inr (Some ''failed to create request: invalid URL escape'',
                w_fresh\<lparr>config := cfg0\<lparr>IGBusinessID := ''%zz''\<rparr>,
                        trace := [Sleep 2000000000, Sleep 4000000000, Sleep 8000000000]\<rparr>))"
    by (simp add: sendDMWithRetry_def sendDMWithRetry_loop.simps sendDM_def sendDM_url_def
          fixtures Let_def time_Sleep_def backoff_def wrap64_def shl64_def uint64_def)
  let ?c = "cfg0\<lparr>MaxRetries := 34\<rparr>"
  let ?w = "w_fresh\<lparr>config := cfg0\<lparr>MaxRetries := 34\<rparr>\<rparr>"
  have m: "MaxRetries (config ?w) = 34" by (simp add: fixtures)
  have f: "\<forall>i\<le>nat (MaxRetries (config ?w)). sendDM_result Part_001 (replies ?w (requests ?w + i)) \<noteq> None"
    by (simp add: fixtures)
  have r: "sendDMWithRetry Part_001 job0 ?w =
           Some (Inr (sendDM_result Part_001 (replies ?w (requests ?w + nat (MaxRetries (config ?w)))),
                 ?w\<lparr>requests := requests ?w + (nat (MaxRetries (config ?w)) + 1),
                    trace := trace ?w @
                      retry_events (config ?w) (sendDM_url Part_001 (config ?w)) data0
                        (nat (MaxRetries (config ?w)) + 1)\<rparr>))"
    by (rule sendDMWithRetry_all_fail [OF _ _ f builds_request_sample(1)]) (simp_all add: m)
  have n: "nat (MaxRetries (config ?w)) + 1 = 35" by (simp add: m)
  have c: "config ?w = ?c" by simp
  have l: "length (retry_events ?c url0 data0 34) = 67"
    using length_retry_events [of ?c url0 data0 33] by simp
  have e: "retry_events ?c url0 data0 35 ! 67 = Sleep (backoff ?c 34)"
    using retry_events_Suc [of ?c url0 data0 34] l by (simp add: nth_append)
  have b: "backoff ?c 34 = - 1266874889709551616"
    by (simp add: fixtures backoff_def wrap64_def shl64_def uint64_def)
  have t: "trace ?w = []" by (simp add: fixtures)
  have "map_option (map_sum id (\<lambda>r. trace (snd r) ! 67)) (sendDMWithRetry Part_001 job0 ?w) =
        Some (Inr (Sleep (- 1266874889709551616)))"
    unfolding r n c sendDM_url_sample by (simp add: t e b)
  moreover have "RetryBackoffBase (config ?w) * 2 ^ (34 - 1) = 17179869184000000000"
    by (simp add: fixtures)
  ultimately show ?thesis using m forever panic norequest by simp
qed

subsection \<open>Delayed worker\<close>


lemma logDM_frame:
  "trace (logDM job st msg w) = trace w @ [Exec (UserID job) (PostID job) (CommentID job) st msg]"
  "db_calls (logDM job st msg w) = Suc (db_calls w)"
  "dmQueue (logDM job st msg w) = dmQueue w"
  "requests (logDM job st msg w) = requests w"
  "config (logDM job st msg w) = config w"
  "lib (logDM job st msg w) = lib w"
  by (simp_all add: logDM_def Let_def)

text \<open>The result of the retry sequence inside the worker, in the three ways it can end.\<close>

lemma dmWorker_body_all_fail:
  assumes "0 \<le> MaxRetries (config w)" "MaxRetries (config w) < 2 ^ 63 - 1"
    and "\<forall>i\<le>nat (MaxRetries (config w)). sendDM_result b (replies w (requests w + i)) \<noteq> None"
    and "sendDM_result b (replies w (requests w + nat (MaxRetries (config w)))) = Some e"
    and "builds_request b job w data"
  shows "dmWorker_body b job w =
         Some (Inr (logDM job ''failed'' e
           (w\<lparr>requests := requests w + (nat (MaxRetries (config w)) + 1),
              trace := trace w @ Sleep (DMDelay (config w)) #
                       retry_events (config w) (sendDM_url b (config w)) data
                         (nat (MaxRetries (config w)) + 1)\<rparr>)))"
proof -
  let ?w1 = "time_Sleep (DMDelay (config w)) w"
  have c: "config ?w1 = config w" "replies ?w1 = replies w" "requests ?w1 = requests w"
    "lib ?w1 = lib w"
    by (simp_all add: time_Sleep_def)
  have br: "builds_request b job ?w1 data"
    using assms(5) builds_request_frame [OF c(4) c(1)] by simp
  have "sendDMWithRetry b job ?w1 =
        Some (Inr (sendDM_result b (replies ?w1 (requests ?w1 + nat (MaxRetries (config ?w1)))),
              ?w1\<lparr>requests := requests ?w1 + (nat (MaxRetries (config ?w1)) + 1),
                  trace := trace ?w1 @
                    retry_events (config ?w1) (sendDM_url b (config ?w1)) data
                      (nat (MaxRetries (config ?w1)) + 1)\<rparr>))"
    by (rule sendDMWithRetry_all_fail [OF _ _ _ br]) (use assms c in simp_all)
  then show ?thesis
    using assms(4) by (simp add: dmWorker_body_def c) (simp add: time_Sleep_def)
qed










text \<open>
  C3, as amended. With \<open>MaxRetries = 3\<close> and a base of 2 s, a job whose request \<^verbatim>\<open>sendDM\<close>
  can build and whose four attempts all fail is posted exactly four times, with sleeps
  of 2 s, 4 s and 8 s between the attempts and none before the first (after the worker's
  own delay), and \<^verbatim>\<open>logDM\<close> is then called once with status "failed" and the error of
  the fourth attempt. When the database accepts the statement, the row of the job's key
  has that status and error, and its retry_count is 0 if the key had no row, and one more
  than before if it had one.
\<close>

theorem always_failing_job:
  assumes "MaxRetries (config w) = 3" and "RetryBackoffBase (config w) = 2 * 1000000000"
    and "\<forall>i\<le>3. sendDM_result b (replies w (requests w + i)) \<noteq> None"
    and "builds_request b job w data"
  shows "\<exists>e w'. sendDM_result b (replies w (requests w + 3)) = Some e \<and>
           dmWorker_body b job w = Some (Inr w') \<and>
           requests w' = requests w + 4 \<and>
           trace w' = trace w @
             [Sleep (DMDelay (config w)),
              Post (sendDM_url b (config w)) data,
              Sleep (2 * 1000000000), Post (sendDM_url b (config w)) data,
              Sleep (4 * 1000000000), Post (sendDM_url b (config w)) data,
              Sleep (8 * 1000000000), Post (sendDM_url b (config w)) data,
              Exec (UserID job) (PostID job) (CommentID job) ''failed'' e] \<and>
           (\<not> db_err w (db_calls w) \<and> (UserID job, PostID job) \<notin> set (map key (dm_logs w)) \<longrightarrow>
              rows_of (UserID job) (PostID job) w' =
                [\<lparr>user_id = UserID job, post_id = PostID job, comment_id = CommentID job,
                  sent_at = now w, status = ''failed'', retry_count = 0, error_message = e\<rparr>]) \<and>
           (\<not> db_err w (db_calls w) \<and> distinct (map key (dm_logs w)) \<longrightarrow>
              (\<forall>r\<in>set (dm_logs w). key r = (UserID job, PostID job) \<longrightarrow>
                 rows_of (UserID job) (PostID job) w' =
                   [r\<lparr>retry_count := retry_count r + 1, status := ''failed'',
                      error_message := e, sent_at := now w\<rparr>]))"
proof -
  let ?u = "sendDM_url b (config w)"
  have n: "nat (MaxRetries (config w)) = 3" using assms(1) by simp
  obtain e where e: "sendDM_result b (replies w (requests w + 3)) = Some e"
    using assms(3) by auto
  have ev: "retry_events (config w) ?u data 4 =
              [Post ?u data, Sleep (2 * 1000000000), Post ?u data,
               Sleep (4 * 1000000000), Post ?u data, Sleep (8 * 1000000000), Post ?u data]"
    by (simp add: eval_nat_numeral retry_events_Suc retry_events_0)
       (simp add: assms(2) backoff_def wrap64_def shl64_def uint64_def)
  let ?w2 = "w\<lparr>requests := requests w + 4,
               trace := trace w @ Sleep (DMDelay (config w)) # retry_events (config w) ?u data 4\<rparr>"
  let ?w' = "logDM job ''failed'' e ?w2"
  have b: "dmWorker_body b job w = Some (Inr ?w')"
    using dmWorker_body_all_fail [of w b e job data] assms(1,3,4) e by (simp add: n)
  have r: "requests ?w' = requests w + 4" by (simp add: logDM_frame)
  have t: "trace ?w' = trace w @
             [Sleep (DMDelay (config w)), Post ?u data, Sleep (2 * 1000000000), Post ?u data,
              Sleep (4 * 1000000000), Post ?u data, Sleep (8 * 1000000000), Post ?u data,
              Exec (UserID job) (PostID job) (CommentID job) ''failed'' e]"
    by (simp add: logDM_frame ev)
  have i: "rows_of (UserID job) (PostID job) ?w' =
             [\<lparr>user_id = UserID job, post_id = PostID job, comment_id = CommentID job,
               sent_at = now w, status = ''failed'', retry_count = 0, error_message = e\<rparr>]"
    if "\<not> db_err w (db_calls w)" "(UserID job, PostID job) \<notin> set (map key (dm_logs w))"
    using that upsert_miss_rows [OF that(2), of "now w" "CommentID job" "''failed''" e]
    by (simp add: rows_of_def logDM_def Let_def)
  have h: "rows_of (UserID job) (PostID job) ?w' =
             [r\<lparr>retry_count := retry_count r + 1, status := ''failed'',
                error_message := e, sent_at := now w\<rparr>]"
    if "\<not> db_err w (db_calls w)" "distinct (map key (dm_logs w))" "r \<in> set (dm_logs w)"
      "key r = (UserID job, PostID job)" for r
    using that upsert_hit_rows [OF that(2,3,4), of "now w" "CommentID job" "''failed''" e]
    by (simp add: rows_of_def logDM_def Let_def merge_row_def)
  from e b r t i h show ?thesis by blast
qed

theorem always_failing_job_witness:
  "MaxRetries (config w_fresh) = 3 \<and> RetryBackoffBase (config w_fresh) = 2 * 1000000000 \<and>
   sendDM_result Part_001 (replies w_fresh (requests w_fresh + 3)) = Some ''api_error_403: no'' \<and>
   builds_request Part_001 job0 w_fresh data0 \<and>
   map_option (map_sum id trace) (dmWorker_body Part_001 job0 w_fresh) =
     Some (Inr [Sleep 1000000000, Post url0 data0, Sleep 2000000000, Post url0 data0,
                Sleep 4000000000, Post url0 data0, Sleep 8000000000, Post url0 data0,
                Exec ''123'' ''p1'' ''c1'' ''failed'' ''api_error_403: no'']) \<and>
   map_option (map_sum id (rows_of ''123'' ''p1'')) (dmWorker_body Part_001 job0 w_fresh) =
     Some (Inr [\<lparr>user_id = ''123'', post_id = ''p1'', comment_id = ''c1'', sent_at = 7,
                  status = ''failed'', retry_count = 0, error_message = ''api_error_403: no''\<rparr>])"
proof -
  have h: "MaxRetries (config w_fresh) = 3" "RetryBackoffBase (config w_fresh) = 2 * 1000000000"
    "\<forall>i\<le>3. sendDM_result Part_001 (replies w_fresh (requests w_fresh + i)) \<noteq> None"
    by (simp_all add: fixtures)
  have last: "sendDM_result Part_001 (replies w_fresh (requests w_fresh + 3)) = Some ''api_error_403: no''"
    by (simp add: fixtures fmt_d_def digits.simps window_expired_def)
  have d: "\<not> db_err w_fresh (db_calls w_fresh)"
    "(UserID job0, PostID job0) \<notin> set (map key (dm_logs w_fresh))"
    by (simp_all add: fixtures)
  have u: "sendDM_url Part_001 (config w_fresh) = url0"
    using sendDM_url_sample(2) by (simp add: w_fresh_def)
  from always_failing_job [OF h builds_request_sample(2)] last d
  obtain w' where
    "dmWorker_body Part_001 job0 w_fresh = Some (Inr w')"
    "trace w' = trace w_fresh @
             [Sleep (DMDelay (config w_fresh)),
              Post (sendDM_url Part_001 (config w_fresh)) data0,
              Sleep (2 * 1000000000), Post (sendDM_url Part_001 (config w_fresh)) data0,
              Sleep (4 * 1000000000), Post (sendDM_url Part_001 (config w_fresh)) data0,
              Sleep (8 * 1000000000), Post (sendDM_url Part_001 (config w_fresh)) data0,
              Exec (UserID job0) (PostID job0) (CommentID job0) ''failed'' ''api_error_403: no'']"
    "rows_of (UserID job0) (PostID job0) w' =
                [\<lparr>user_id = UserID job0, post_id = PostID job0, comment_id = CommentID job0,
                  sent_at = now w_fresh, status = ''failed'', retry_count = 0,
                  error_message = ''api_error_403: no''\<rparr>]"
    by auto
  then have
    "map_option (map_sum id trace) (dmWorker_body Part_001 job0 w_fresh) =
     Some (Inr [Sleep 1000000000, Post url0 data0, Sleep 2000000000, Post url0 data0,
                Sleep 4000000000, Post url0 data0, Sleep 8000000000, Post url0 data0,
                Exec ''123'' ''p1'' ''c1'' ''failed'' ''api_error_403: no''])"
    "map_option (map_sum id (rows_of ''123'' ''p1'')) (dmWorker_body Part_001 job0 w_fresh) =
     Some (Inr [\<lparr>user_id = ''123'', post_id = ''p1'', comment_id = ''c1'', sent_at = 7,
                  status = ''failed'', retry_count = 0, error_message = ''api_error_403: no''\<rparr>])"
    unfolding u by (simp_all add: w_fresh_def cfg0_def job0_def)
  then show ?thesis
    using h(1,2) last builds_request_sample(2) by blast
qed

text \<open>
  The claim as stated fails on the retry_count: the job of the sample data, admitted with
  no row for its key, ends with retry_count 0, which is neither 3 nor 4. And where
  \<^verbatim>\<open>http.NewRequest\<close> rejects the URL, the build of part_001 panics at the first attempt:
  no request is posted and no record is written.
\<close>

theorem always_failing_job_counterexample:
  "MaxRetries (config w_fresh) = 3 \<and> RetryBackoffBase (config w_fresh) = 2 * 1000000000 \<and>
   sendDM_result Part_001 (replies w_fresh 0) \<noteq> None \<and>
   sendDM_result Part_001 (replies w_fresh 1) \<noteq> None \<and>
   sendDM_result Part_001 (replies w_fresh 2) \<noteq> None \<and>
   sendDM_result Part_001 (replies w_fresh 3) \<noteq> None \<and>
   map_option (map_sum id (\<lambda>w'. map retry_count (rows_of ''123'' ''p1'' w')))
     (dmWorker_body Part_001 job0 w_fresh) = Some (Inr [0]) \<and>
   MaxRetries (config (w_fresh\<lparr>config := cfg0\<lparr>IGBusinessID := ''%zz''\<rparr>\<rparr>)) = 3 \<and>
   RetryBackoffBase (config (w_fresh\<lparr>config := cfg0\<lparr>IGBusinessID := ''%zz''\<rparr>\<rparr>)) = 2 * 1000000000 \<and>
   dmWorker_body Part_001 job0 (w_fresh\<lparr>config := cfg0\<lparr>IGBusinessID := ''%zz''\<rparr>\<rparr>) =
     Some (Inl ''runtime error: invalid memory address or nil pointer dereference'')"
proof -
  have c: "MaxRetries (config w_fresh) = 3" "RetryBackoffBase (config w_fresh) = 2 * 1000000000"
    "MaxRetries (config (w_fresh\<lparr>config := cfg0\<lparr>IGBusinessID := ''%zz''\<rparr>\<rparr>)) = 3"
    "RetryBackoffBase (config (w_fresh\<lparr>config := cfg0\<lparr>IGBusinessID := ''%zz''\<rparr>\<rparr>)) = 2 * 1000000000"
    by (simp_all add: fixtures)
  have f: "sendDM_result Part_001 (replies w_fresh k) \<noteq> None" for k
    by (simp add: fixtures)
  have a: "\<forall>i\<le>nat (MaxRetries (config w_fresh)).
             sendDM_result Part_001 (replies w_fresh (requests w_fresh + i)) \<noteq> None"
    using f by simp
  have e: "sendDM_result Part_001 (replies w_fresh (requests w_fresh + nat (MaxRetries (config w_fresh)))) =
           Some ''api_error_403: no''"
    by (simp add: fixtures fmt_d_def digits.simps window_expired_def)
  have "dmWorker_body Part_001 job0 w_fresh =
         Some (Inr (logDM job0 ''failed'' ''api_error_403: no''
           (w_fresh\<lparr>requests := requests w_fresh + (nat (MaxRetries (config w_fresh)) + 1),
              trace := trace w_fresh @ Sleep (DMDelay (config w_fresh)) #
                       retry_events (config w_fresh) (sendDM_url Part_001 (config w_fresh)) data0
                         (nat (MaxRetries (config w_fresh)) + 1)\<rparr>)))"
    by (rule dmWorker_body_all_fail [OF _ _ a e builds_request_sample(2)]) (simp_all add: fixtures)
  then have r:
    "map_option (map_sum id (\<lambda>w'. map retry_count (rows_of ''123'' ''p1'' w')))
       (dmWorker_body Part_001 job0 w_fresh) = Some (Inr [0])"
    by (simp add: logDM_def Let_def rows_of_def upsert_def key_def) (simp add: fixtures)
  have panic:
    "dmWorker_body Part_001 job0 (w_fresh\<lparr>config := cfg0\<lparr>IGBusinessID := ''%zz''\<rparr>\<rparr>) =
     Some (Inl ''runtime error: invalid memory address or nil pointer dereference'')"
    by (simp add: dmWorker_body_def sendDMWithRetry_def sendDMWithRetry_loop.simps sendDM_def
          sendDM_url_def fixtures Let_def time_Sleep_def)
  from c f r panic show ?thesis by blast
qed

end
